theory Spec2Isabelle
  imports Main
begin

section \<open>Python values and exceptions\<close>

text \<open>
  The two modules \<^verbatim>\<open>sportsreference/ncaaf/boxscore.py\<close> and
  \<^verbatim>\<open>sportsreference/mlb/boxscore.py\<close> are embedded shallowly. A Python expression
  that may raise is a value of \<open>error + 'a\<close>, with \<open>Inl\<close> the exception that leaves the
  function. Strings are \<open>char list\<close>; the pages are taken to be ASCII, so that
  \<^verbatim>\<open>str.lower\<close> only maps \<^verbatim>\<open>A-Z\<close>.
\<close>

datatype error =
    AttributeError   \<comment> \<open>method call on an object that lacks it, e.g. \<^verbatim>\<open>None.replace\<close>\<close>
  | TypeError        \<comment> \<open>\<^verbatim>\<open>int(None)\<close>\<close>
  | ValueError       \<comment> \<open>\<^verbatim>\<open>int('abc')\<close>\<close>
  | IndexError       \<comment> \<open>list index out of range\<close>
  | KeyError         \<comment> \<open>missing dictionary key\<close>
  | HTTPError        \<comment> \<open>a failed download or parse inside \<^verbatim>\<open>pq(...)\<close>\<close>

text \<open>Sequencing of two steps that may raise.\<close>

definition bind :: "error + 'a \<Rightarrow> ('a \<Rightarrow> error + 'b) \<Rightarrow> error + 'b" where
  "bind m f = (case m of Inl e \<Rightarrow> Inl e | Inr v \<Rightarrow> f v)"

text \<open>
  A PyQuery selection as the code uses it: \<^verbatim>\<open>str(tag)\<close> (its HTML) and
  \<^verbatim>\<open>tag.text()\<close>.
\<close>

record name_tag =
  tag_str :: string    \<comment> \<open>\<^verbatim>\<open>str(tag)\<close>\<close>
  tag_text :: string   \<comment> \<open>\<^verbatim>\<open>tag.text()\<close>\<close>

text \<open>
  What a raw (underscore) attribute of a Boxscore holds: \<^verbatim>\<open>None\<close> from
  \<^verbatim>\<open>__init__\<close>, a string from \<^verbatim>\<open>utils._parse_field\<close> or the narrative
  parser, or the selection stored by \<^verbatim>\<open>_parse_name\<close>.
\<close>

datatype raw = PNone | PStr string | PTag name_tag

text \<open>An instance is its \<^verbatim>\<open>__dict__\<close>: attribute name to value.\<close>

type_synonym obj = "string \<Rightarrow> raw option"

definition getattr :: "obj \<Rightarrow> string \<Rightarrow> error + raw" where
  "getattr self name = (case self name of None \<Rightarrow> Inl AttributeError | Some v \<Rightarrow> Inr v)"

section \<open>Python string operations\<close>

definition startswith :: "string \<Rightarrow> string \<Rightarrow> bool" where
  "startswith s p = (take (length p) s = p)"

text \<open>\<^verbatim>\<open>sub in s\<close>\<close>

fun contains :: "string \<Rightarrow> string \<Rightarrow> bool" where
  "contains [] sub = (sub = [])"
| "contains (c # cs) sub = (startswith (c # cs) sub \<or> contains cs sub)"

definition lower_char :: "char \<Rightarrow> char" where
  "lower_char c =
     (case map_of (zip ''ABCDEFGHIJKLMNOPQRSTUVWXYZ'' ''abcdefghijklmnopqrstuvwxyz'') c of
        Some d \<Rightarrow> d | None \<Rightarrow> c)"

definition lower :: "string \<Rightarrow> string" where
  "lower s = map lower_char s"

text \<open>
  \<^verbatim>\<open>s.replace(old, new)\<close>: the occurrences of \<open>old\<close> are replaced from left to
  right, without overlap. With an empty \<open>old\<close> Python inserts \<open>new\<close> around every
  character.
\<close>

function replace_from :: "string \<Rightarrow> string \<Rightarrow> string \<Rightarrow> string" where
  "replace_from old new [] = []"
| "replace_from old new (c # cs) =
     (if old \<noteq> [] \<and> startswith (c # cs) old
      then new @ replace_from old new (drop (length old) (c # cs))
      else c # replace_from old new cs)"
  by pat_completeness auto
termination
  by (relation "measure (\<lambda>(old, new, s). length s)") (auto simp: startswith_def)

definition replace :: "string \<Rightarrow> string \<Rightarrow> string \<Rightarrow> string" where
  "replace s old new =
     (if old = [] then new @ concat (map (\<lambda>c. c # new) s) else replace_from old new s)"

text \<open>
  \<^verbatim>\<open>s.split(sep)\<close> for a one-character separator (the source splits on
  \<^verbatim>\<open>'-'\<close> and \<^verbatim>\<open>'\n'\<close> only). The result is never empty.
\<close>

fun split :: "string \<Rightarrow> char \<Rightarrow> string list" where
  "split [] sep = [[]]"
| "split (c # cs) sep =
     (if c = sep then [] # split cs sep
      else (let parts = split cs sep in (c # hd parts) # tl parts))"

text \<open>\<^verbatim>\<open>xs[i]\<close> with Python's negative indices and its IndexError.\<close>

definition index :: "'a list \<Rightarrow> int \<Rightarrow> error + 'a" where
  "index xs i =
     (if 0 \<le> i \<and> i < int (length xs) then Inr (xs ! nat i)
      else if i < 0 \<and> - int (length xs) \<le> i then Inr (xs ! nat (int (length xs) + i))
      else Inl IndexError)"

text \<open>
  \<^verbatim>\<open>int(s)\<close> on a string: surrounding whitespace is dropped, one sign is allowed,
  then decimal digits, single underscores allowed between digits; anything else is
  a ValueError.
\<close>

definition is_space :: "char \<Rightarrow> bool" where
  "is_space c = (c \<in> set [CHR 0x09, CHR 0x0A, CHR 0x0B, CHR 0x0C, CHR 0x0D,
                           CHR 0x1C, CHR 0x1D, CHR 0x1E, CHR 0x1F, CHR '' ''])"

definition strip :: "string \<Rightarrow> string" where
  "strip s = rev (dropWhile is_space (rev (dropWhile is_space s)))"

definition digit_value :: "char \<Rightarrow> nat option" where
  "digit_value c = map_of (zip ''0123456789'' [0, 1, 2, 3, 4, 5, 6, 7, 8, 9]) c"

fun digits_ok :: "string \<Rightarrow> bool" where
  "digits_ok [] = False"
| "digits_ok [c] = (digit_value c \<noteq> None)"
| "digits_ok (c # d # cs) =
     (digit_value c \<noteq> None \<and> (if d = CHR ''_'' then digits_ok cs else digits_ok (d # cs)))"

definition digits_num :: "string \<Rightarrow> nat" where
  "digits_num ds =
     foldl (\<lambda>acc c. 10 * acc + (case digit_value c of Some d \<Rightarrow> d | None \<Rightarrow> 0)) 0
       (filter (\<lambda>c. c \<noteq> CHR ''_'') ds)"

definition int_of_str :: "string \<Rightarrow> error + int" where
  "int_of_str s =
     (case strip s of
        [] \<Rightarrow> Inl ValueError
      | c # cs \<Rightarrow>
          if c = CHR ''-'' then
            (if digits_ok cs then Inr (- int (digits_num cs)) else Inl ValueError)
          else if c = CHR ''+'' then
            (if digits_ok cs then Inr (int (digits_num cs)) else Inl ValueError)
          else
            (if digits_ok (c # cs) then Inr (int (digits_num (c # cs))) else Inl ValueError))"

text \<open>\<^verbatim>\<open>int(v)\<close> on a raw attribute.\<close>

definition py_int :: "raw \<Rightarrow> error + int" where
  "py_int v = (case v of PStr s \<Rightarrow> int_of_str s | PNone \<Rightarrow> Inl TypeError | PTag t \<Rightarrow> Inl TypeError)"

text \<open>\<^verbatim>\<open>v.replace(old, new)\<close>, \<^verbatim>\<open>v.lower()\<close>, \<^verbatim>\<open>v.text()\<close> and \<^verbatim>\<open>str(v)\<close> on a raw attribute.\<close>

definition py_replace :: "raw \<Rightarrow> string \<Rightarrow> string \<Rightarrow> error + string" where
  "py_replace v old new = (case v of PStr s \<Rightarrow> Inr (replace s old new) | _ \<Rightarrow> Inl AttributeError)"

definition py_lower :: "raw \<Rightarrow> error + string" where
  "py_lower v = (case v of PStr s \<Rightarrow> Inr (lower s) | _ \<Rightarrow> Inl AttributeError)"

definition py_text :: "raw \<Rightarrow> error + string" where
  "py_text v = (case v of PTag t \<Rightarrow> Inr (tag_text t) | _ \<Rightarrow> Inl AttributeError)"

definition py_str :: "raw \<Rightarrow> string" where
  "py_str v = (case v of PNone \<Rightarrow> ''None'' | PStr s \<Rightarrow> s | PTag t \<Rightarrow> tag_str t)"

text \<open>\<^verbatim>\<open>d[k]\<close> on a dictionary.\<close>

definition lookup :: "('k \<Rightarrow> 'v option) \<Rightarrow> 'k \<Rightarrow> error + 'v" where
  "lookup d k = (case d k of None \<Rightarrow> Inl KeyError | Some v \<Rightarrow> Inr v)"

text \<open>
  The two regular expressions of the game-day finders, on each line of the text
  (\<^verbatim>\<open>.\<close> does not match a newline): \<^verbatim>\<open>re.sub('.*' + lit, '', s)\<close> drops a line's
  text up to the end of the last occurrence of \<open>lit\<close> in it, and
  \<^verbatim>\<open>re.sub(lit + '.*', '', s)\<close> drops the rest of a line from the first occurrence
  of \<open>lit\<close> on. A line without \<open>lit\<close> is kept.
\<close>

fun after_last :: "string \<Rightarrow> string \<Rightarrow> string option" where
  "after_last [] lit = None"
| "after_last (c # cs) lit =
     (case after_last cs lit of
        Some r \<Rightarrow> Some r
      | None \<Rightarrow> if startswith (c # cs) lit then Some (drop (length lit) (c # cs)) else None)"

fun before_first :: "string \<Rightarrow> string \<Rightarrow> string" where
  "before_first [] lit = []"
| "before_first (c # cs) lit = (if startswith (c # cs) lit then [] else c # before_first cs lit)"

fun join :: "string \<Rightarrow> string list \<Rightarrow> string" where
  "join sep [] = []"
| "join sep [x] = x"
| "join sep (x # y # zs) = x @ sep @ join sep (y # zs)"

definition newline :: char where
  "newline = CHR 0x0A"

definition re_sub_upto :: "string \<Rightarrow> string \<Rightarrow> string" where
  "re_sub_upto lit s =
     join [newline]
       (map (\<lambda>line. case after_last line lit of Some r \<Rightarrow> r | None \<Rightarrow> line) (split s newline))"

definition re_sub_from :: "string \<Rightarrow> string \<Rightarrow> string" where
  "re_sub_from lit s = join [newline] (map (\<lambda>line. before_first line lit) (split s newline))"

section \<open>What the modules import\<close>

text \<open>
  \<^verbatim>\<open>constants.py\<close>, \<^verbatim>\<open>utils.py\<close> and PyQuery are not part of the two modules.
  Their tables and functions are the fields of a record that every function below
  takes as its first argument. A call that the source wraps in \<^verbatim>\<open>try\<close>, or whose
  failure a claim is about, returns \<open>error + _\<close>.
\<close>

datatype location = HOME | AWAY

datatype daytime = DAY | NIGHT

text \<open>
  One \<^verbatim>\<open>table[class="teams"]\<close> of an index page, as the finder queries it:
  \<^verbatim>\<open>game('td a').items()\<close> and \<^verbatim>\<open>game('td[class="right gamelink"] a')\<close>.
\<close>

record game =
  td_a :: "name_tag list"
  gamelink :: name_tag

record ('doc, 'f) site =
  BOXSCORE_URL :: "string \<Rightarrow> string"
    \<comment> \<open>\<^verbatim>\<open>BOXSCORE_URL % uri\<close>\<close>
  BOXSCORES_URL :: "int \<Rightarrow> int \<Rightarrow> int \<Rightarrow> string"
    \<comment> \<open>\<^verbatim>\<open>BOXSCORES_URL % (a, b, c)\<close>\<close>
  BOXSCORE_SCHEME :: "string \<Rightarrow> string option"
  BOXSCORE_ELEMENT_INDEX :: "string \<Rightarrow> int option"
  DOUBLE_HEADER_INDICES :: "string \<Rightarrow> string option"
  pq :: "string \<Rightarrow> error + 'doc"
    \<comment> \<open>\<^verbatim>\<open>pq(url)\<close>: download and parse\<close>
  pq_without_comments :: "'doc \<Rightarrow> error + 'doc"
    \<comment> \<open>\<^verbatim>\<open>pq(utils._remove_html_comment_tags(url_data))\<close>\<close>
  falsy :: "'doc \<Rightarrow> bool"
    \<comment> \<open>\<^verbatim>\<open>not boxscore\<close> on a document: an empty selection\<close>
  items_text :: "'doc \<Rightarrow> string \<Rightarrow> string list"
    \<comment> \<open>\<^verbatim>\<open>[i.text() for i in boxscore(scheme).items()]\<close>\<close>
  query :: "'doc \<Rightarrow> string \<Rightarrow> name_tag"
    \<comment> \<open>\<^verbatim>\<open>boxscore(scheme)\<close>\<close>
  utils_parse_field :: "'doc \<Rightarrow> string \<Rightarrow> int \<Rightarrow> error + raw"
    \<comment> \<open>\<^verbatim>\<open>utils._parse_field(BOXSCORE_SCHEME, boxscore, short_field, index)\<close>\<close>
  utils_parse_abbreviation :: "raw \<Rightarrow> error + string"
    \<comment> \<open>\<^verbatim>\<open>utils._parse_abbreviation(tag)\<close>\<close>
  teams_tables :: "'doc \<Rightarrow> game list"
    \<comment> \<open>\<^verbatim>\<open>page('table[class="teams"]').items()\<close>\<close>
  py_float :: "string \<Rightarrow> error + 'f"
    \<comment> \<open>\<^verbatim>\<open>float(s)\<close> on a string\<close>

section \<open>NCAAF: the narrative block\<close>

definition weekdays :: "string list" where
  "weekdays = [''monday'', ''tuesday'', ''wednesday'', ''thursday'', ''friday'',
               ''saturday'', ''sunday'']"

text \<open>
  The three statements that end both branches of
  \<^verbatim>\<open>Boxscore._parse_game_date_and_location\<close> (lines 137-142 and 144-149).
\<close>

definition line_or_empty :: "string list \<Rightarrow> int \<Rightarrow> error + string" where
  "line_or_empty game_info i =
     (if i \<ge> int (length game_info) then Inr ''''
      else bind (index game_info i) (\<lambda>line.
        if contains (lower line) ''sports logos.net'' \<or> line = '''' then Inr ''''
        else Inr line))"

text \<open>The loop over the weekday names: \<open>None\<close> when no name is on the first line.\<close>

fun day_loop :: "string list \<Rightarrow> string list \<Rightarrow> int \<Rightarrow> error + string option" where
  "day_loop [] game_info i = Inr None"
| "day_loop (day # days) game_info i =
     bind (index game_info 0) (\<lambda>first.
       if contains (lower first) day then bind (line_or_empty game_info i) (\<lambda>v. Inr (Some v))
       else day_loop days game_info i)"

definition ncaaf_parse_game_date_and_location ::
    "('doc, 'f) site \<Rightarrow> string \<Rightarrow> 'doc \<Rightarrow> error + string" where
  "ncaaf_parse_game_date_and_location site field boxscore =
     bind (lookup (BOXSCORE_SCHEME site) field) (\<lambda>scheme.
       let items = items_text site boxscore scheme in
       bind (index items 0) (\<lambda>item0.
         let game_info = split item0 newline in
         bind (lookup (BOXSCORE_ELEMENT_INDEX site) field) (\<lambda>i.
           bind (day_loop weekdays game_info i) (\<lambda>found.
             case found of
               Some v \<Rightarrow> Inr v
             | None \<Rightarrow> line_or_empty game_info (i + 1)))))"

section \<open>MLB: the narrative block\<close>

definition is_doubleheader :: "string \<Rightarrow> bool" where
  "is_doubleheader item =
     (contains (lower item) ''first game of doubleheader'' \<or>
      contains (lower item) ''second game of doubleheader'')"

text \<open>The inner loop \<^verbatim>\<open>for element in game_info\<close>: \<open>None\<close> when it ends without a return.\<close>

fun element_loop ::
    "('doc, 'f) site \<Rightarrow> string \<Rightarrow> string list \<Rightarrow> error + string option" where
  "element_loop site field [] = Inr None"
| "element_loop site field (element # rest) =
     (if field = ''time_of_day'' then
        (if contains (lower element) ''night game'' \<or> contains (lower element) ''day game''
         then Inr (Some element)
         else element_loop site field rest)
      else
        bind (lookup (DOUBLE_HEADER_INDICES site) field) (\<lambda>matcher.
          if contains (lower element) matcher then Inr (Some element)
          else element_loop site field rest))"

text \<open>
  The outer loop \<^verbatim>\<open>for item in items\<close>, with the flag \<^verbatim>\<open>double_header\<close>: the
  returned string if the loop returns, and the flag at its end otherwise.
\<close>

fun item_loop ::
    "('doc, 'f) site \<Rightarrow> string \<Rightarrow> string list \<Rightarrow> bool \<Rightarrow> string list
      \<Rightarrow> error + (string option \<times> bool)" where
  "item_loop site field game_info double_header [] = Inr (None, double_header)"
| "item_loop site field game_info double_header (item # rest) =
     (if is_doubleheader item then
        (if field = ''date'' then bind (index game_info 0) (\<lambda>line. Inr (Some line, True))
         else
           bind (element_loop site field game_info) (\<lambda>found.
             case found of
               Some element \<Rightarrow> Inr (Some element, True)
             | None \<Rightarrow> item_loop site field game_info True rest))
      else item_loop site field game_info double_header rest)"

definition mlb_parse_game_date_and_location ::
    "('doc, 'f) site \<Rightarrow> string \<Rightarrow> 'doc \<Rightarrow> error + string" where
  "mlb_parse_game_date_and_location site field boxscore =
     bind (lookup (BOXSCORE_SCHEME site) field) (\<lambda>scheme.
       let items = items_text site boxscore scheme in
       bind (lookup (BOXSCORE_ELEMENT_INDEX site) field) (\<lambda>i.
         bind (index items 0) (\<lambda>item0.
           let game_info = split item0 newline in
           bind (item_loop site field game_info False items) (\<lambda>(found, double_header).
             case found of
               Some v \<Rightarrow> Inr v
             | None \<Rightarrow> if double_header then Inr '''' else index game_info i))))"

section \<open>NCAAF: the Boxscore class\<close>

text \<open>
  \<^verbatim>\<open>Boxscore._retrieve_html_page\<close>: only the download is inside the
  \<^verbatim>\<open>try\<close>; \<open>None\<close> is Python's \<^verbatim>\<open>None\<close>.
\<close>

definition ncaaf_retrieve_html_page :: "('doc, 'f) site \<Rightarrow> string \<Rightarrow> error + 'doc option" where
  "ncaaf_retrieve_html_page site uri =
     (let url = BOXSCORE_URL site uri in
      case pq site url of
        Inl e \<Rightarrow> Inr None
      | Inr url_data \<Rightarrow> bind (pq_without_comments site url_data) (\<lambda>d. Inr (Some d)))"

definition ncaaf_parse_name :: "('doc, 'f) site \<Rightarrow> string \<Rightarrow> 'doc \<Rightarrow> error + name_tag" where
  "ncaaf_parse_name site field boxscore =
     bind (lookup (BOXSCORE_SCHEME site) field) (\<lambda>scheme. Inr (query site boxscore scheme))"

text \<open>
  The attributes that \<^verbatim>\<open>__init__\<close> sets to \<^verbatim>\<open>None\<close>, in its order (lines 29-70);
  \<^verbatim>\<open>_uri\<close> comes first and holds the argument.
\<close>

definition ncaaf_fields :: "string list" where
  "ncaaf_fields =
    [''_date'', ''_time'', ''_stadium'', ''_away_name'', ''_home_name'', ''_winner'',
     ''_winning_name'', ''_winning_abbr'', ''_losing_name'', ''_losing_abbr'',
     ''_away_points'', ''_away_first_downs'', ''_away_rush_attempts'',
     ''_away_rush_yards'', ''_away_rush_touchdowns'', ''_away_pass_completions'',
     ''_away_pass_attempts'', ''_away_pass_yards'', ''_away_pass_touchdowns'',
     ''_away_interceptions'', ''_away_total_yards'', ''_away_fumbles'',
     ''_away_fumbles_lost'', ''_away_turnovers'', ''_away_penalties'',
     ''_away_yards_from_penalties'', ''_home_points'', ''_home_first_downs'',
     ''_home_rush_attempts'', ''_home_rush_yards'', ''_home_rush_touchdowns'',
     ''_home_pass_completions'', ''_home_pass_attempts'', ''_home_pass_yards'',
     ''_home_pass_touchdowns'', ''_home_interceptions'', ''_home_total_yards'',
     ''_home_fumbles'', ''_home_fumbles_lost'', ''_home_turnovers'', ''_home_penalties'',
     ''_home_yards_from_penalties'']"

definition ncaaf_new :: "string \<Rightarrow> obj" where
  "ncaaf_new uri = map_of ((''_uri'', PStr uri) # map (\<lambda>name. (name, PNone)) ncaaf_fields)"

text \<open>The body of \<^verbatim>\<open>for field in self.__dict__\<close> in \<^verbatim>\<open>_parse_game_data\<close>.\<close>

fun ncaaf_field_loop ::
    "('doc, 'f) site \<Rightarrow> 'doc \<Rightarrow> string list \<Rightarrow> obj \<Rightarrow> error + obj" where
  "ncaaf_field_loop site boxscore [] self = Inr self"
| "ncaaf_field_loop site boxscore (field # rest) self =
     (let short_field = tl field in
      if short_field = ''winner'' \<or> short_field = ''winning_name'' \<or>
         short_field = ''winning_abbr'' \<or> short_field = ''losing_name'' \<or>
         short_field = ''losing_abbr'' \<or> short_field = ''uri''
      then ncaaf_field_loop site boxscore rest self
      else if short_field = ''date'' \<or> short_field = ''time'' \<or> short_field = ''stadium''
      then bind (ncaaf_parse_game_date_and_location site short_field boxscore) (\<lambda>value.
             ncaaf_field_loop site boxscore rest (self(field \<mapsto> PStr value)))
      else if short_field = ''away_name'' \<or> short_field = ''home_name''
      then bind (ncaaf_parse_name site short_field boxscore) (\<lambda>value.
             ncaaf_field_loop site boxscore rest (self(field \<mapsto> PTag value)))
      else
        (let i = (case BOXSCORE_ELEMENT_INDEX site short_field of Some j \<Rightarrow> j | None \<Rightarrow> 0) in
         bind (utils_parse_field site boxscore short_field i) (\<lambda>value.
           ncaaf_field_loop site boxscore rest (self(field \<mapsto> value)))))"

definition ncaaf_parse_game_data :: "('doc, 'f) site \<Rightarrow> obj \<Rightarrow> string \<Rightarrow> error + obj" where
  "ncaaf_parse_game_data site self uri =
     bind (ncaaf_retrieve_html_page site uri) (\<lambda>boxscore.
       case boxscore of
         None \<Rightarrow> Inr self
       | Some d \<Rightarrow>
           if falsy site d then Inr self
           else ncaaf_field_loop site d (''_uri'' # ncaaf_fields) self)"

text \<open>\<^verbatim>\<open>Boxscore(uri)\<close>: an exception in \<^verbatim>\<open>__init__\<close> leaves no instance.\<close>

definition ncaaf_Boxscore :: "('doc, 'f) site \<Rightarrow> string \<Rightarrow> error + obj" where
  "ncaaf_Boxscore site uri = ncaaf_parse_game_data site (ncaaf_new uri) uri"

subsection \<open>The typed accessors\<close>

text \<open>
  The composite accessors all have the body
  \<^verbatim>\<open>info = self._attr.replace('--', '-').split('-'); return int(info[pos])\<close>;
  they differ in the attribute read and in the position.
\<close>

definition composite :: "obj \<Rightarrow> string \<Rightarrow> int \<Rightarrow> error + int" where
  "composite self attr pos =
     bind (getattr self attr) (\<lambda>v.
       bind (py_replace v ''--'' ''-'') (\<lambda>s.
         let info = split s CHR ''-'' in
         bind (index info pos) int_of_str))"

definition ncaaf_date :: "obj \<Rightarrow> error + raw" where
  "ncaaf_date self = getattr self ''_date''"

definition ncaaf_time :: "obj \<Rightarrow> error + string" where
  "ncaaf_time self = bind (getattr self ''_time'') (\<lambda>v. py_replace v ''Start Time: '' '''')"

definition ncaaf_stadium :: "obj \<Rightarrow> error + string" where
  "ncaaf_stadium self = bind (getattr self ''_stadium'') (\<lambda>v. py_replace v ''Stadium: '' '''')"

definition ncaaf_away_points :: "obj \<Rightarrow> error + int" where
  "ncaaf_away_points self = bind (getattr self ''_away_points'') py_int"

definition ncaaf_away_first_downs :: "obj \<Rightarrow> error + int" where
  "ncaaf_away_first_downs self = bind (getattr self ''_away_first_downs'') py_int"

definition ncaaf_away_rush_attempts :: "obj \<Rightarrow> error + int" where
  "ncaaf_away_rush_attempts self = composite self ''_away_rush_attempts'' 0"

definition ncaaf_away_rush_yards :: "obj \<Rightarrow> error + int" where
  "ncaaf_away_rush_yards self = composite self ''_away_rush_yards'' 1"

definition ncaaf_away_rush_touchdowns :: "obj \<Rightarrow> error + int" where
  "ncaaf_away_rush_touchdowns self = composite self ''_away_rush_touchdowns'' 2"

definition ncaaf_away_pass_completions :: "obj \<Rightarrow> error + int" where
  "ncaaf_away_pass_completions self = composite self ''_away_pass_completions'' 0"

definition ncaaf_away_pass_attempts :: "obj \<Rightarrow> error + int" where
  "ncaaf_away_pass_attempts self = composite self ''_away_pass_attempts'' 1"

definition ncaaf_away_pass_yards :: "obj \<Rightarrow> error + int" where
  "ncaaf_away_pass_yards self = composite self ''_away_pass_yards'' 2"

definition ncaaf_away_pass_touchdowns :: "obj \<Rightarrow> error + int" where
  "ncaaf_away_pass_touchdowns self = composite self ''_away_pass_touchdowns'' 3"

definition ncaaf_away_interceptions :: "obj \<Rightarrow> error + int" where
  "ncaaf_away_interceptions self = composite self ''_away_interceptions'' 4"

definition ncaaf_away_total_yards :: "obj \<Rightarrow> error + int" where
  "ncaaf_away_total_yards self = bind (getattr self ''_away_total_yards'') py_int"

definition ncaaf_away_fumbles :: "obj \<Rightarrow> error + int" where
  "ncaaf_away_fumbles self = composite self ''_away_fumbles'' 0"

definition ncaaf_away_fumbles_lost :: "obj \<Rightarrow> error + int" where
  "ncaaf_away_fumbles_lost self = composite self ''_away_fumbles'' 1"

definition ncaaf_away_turnovers :: "obj \<Rightarrow> error + int" where
  "ncaaf_away_turnovers self = bind (getattr self ''_away_turnovers'') py_int"

definition ncaaf_away_penalties :: "obj \<Rightarrow> error + int" where
  "ncaaf_away_penalties self = composite self ''_away_penalties'' 0"

definition ncaaf_away_yards_from_penalties :: "obj \<Rightarrow> error + int" where
  "ncaaf_away_yards_from_penalties self = composite self ''_away_yards_from_penalties'' 1"

definition ncaaf_home_points :: "obj \<Rightarrow> error + int" where
  "ncaaf_home_points self = bind (getattr self ''_home_points'') py_int"

definition ncaaf_home_first_downs :: "obj \<Rightarrow> error + int" where
  "ncaaf_home_first_downs self = bind (getattr self ''_home_first_downs'') py_int"

definition ncaaf_home_rush_attempts :: "obj \<Rightarrow> error + int" where
  "ncaaf_home_rush_attempts self = composite self ''_home_rush_attempts'' 0"

definition ncaaf_home_rush_yards :: "obj \<Rightarrow> error + int" where
  "ncaaf_home_rush_yards self = composite self ''_home_rush_yards'' 1"

definition ncaaf_home_rush_touchdowns :: "obj \<Rightarrow> error + int" where
  "ncaaf_home_rush_touchdowns self = composite self ''_home_rush_touchdowns'' 2"

definition ncaaf_home_pass_completions :: "obj \<Rightarrow> error + int" where
  "ncaaf_home_pass_completions self = composite self ''_home_pass_completions'' 0"

definition ncaaf_home_pass_attempts :: "obj \<Rightarrow> error + int" where
  "ncaaf_home_pass_attempts self = composite self ''_home_pass_attempts'' 1"

definition ncaaf_home_pass_yards :: "obj \<Rightarrow> error + int" where
  "ncaaf_home_pass_yards self = composite self ''_home_pass_yards'' 2"

definition ncaaf_home_pass_touchdowns :: "obj \<Rightarrow> error + int" where
  "ncaaf_home_pass_touchdowns self = composite self ''_home_pass_touchdowns'' 3"

definition ncaaf_home_interceptions :: "obj \<Rightarrow> error + int" where
  "ncaaf_home_interceptions self = composite self ''_home_pass_touchdowns'' 4"

definition ncaaf_home_total_yards :: "obj \<Rightarrow> error + int" where
  "ncaaf_home_total_yards self = bind (getattr self ''_home_total_yards'') py_int"

definition ncaaf_home_fumbles :: "obj \<Rightarrow> error + int" where
  "ncaaf_home_fumbles self = composite self ''_home_fumbles'' 0"

definition ncaaf_home_fumbles_lost :: "obj \<Rightarrow> error + int" where
  "ncaaf_home_fumbles_lost self = composite self ''_home_fumbles_lost'' 1"

definition ncaaf_home_turnovers :: "obj \<Rightarrow> error + int" where
  "ncaaf_home_turnovers self = bind (getattr self ''_home_turnovers'') py_int"

definition ncaaf_home_penalties :: "obj \<Rightarrow> error + int" where
  "ncaaf_home_penalties self = composite self ''_home_penalties'' 0"

definition ncaaf_home_yards_from_penalties :: "obj \<Rightarrow> error + int" where
  "ncaaf_home_yards_from_penalties self = composite self ''_home_yards_from_penalties'' 1"

definition ncaaf_winner :: "obj \<Rightarrow> error + location" where
  "ncaaf_winner self =
     bind (ncaaf_home_points self) (\<lambda>home_points.
       bind (ncaaf_away_points self) (\<lambda>away_points.
         if home_points > away_points then Inr HOME else Inr AWAY))"

definition ncaaf_winning_name :: "obj \<Rightarrow> error + string" where
  "ncaaf_winning_name self =
     bind (ncaaf_winner self) (\<lambda>winner.
       if winner = HOME then bind (getattr self ''_home_name'') py_text
       else bind (getattr self ''_away_name'') py_text)"

text \<open>
  The abbreviation of one side, as \<^verbatim>\<open>winning_abbr\<close> and \<^verbatim>\<open>losing_abbr\<close> compute
  it (lines 332-334): the display name when the tag has no school link.
\<close>

definition ncaaf_abbr_of :: "('doc, 'f) site \<Rightarrow> obj \<Rightarrow> string \<Rightarrow> error + string" where
  "ncaaf_abbr_of site self attr =
     bind (getattr self attr) (\<lambda>name.
       if \<not> contains (py_str name) ''cfb/schools'' then py_text name
       else utils_parse_abbreviation site name)"

definition ncaaf_winning_abbr :: "('doc, 'f) site \<Rightarrow> obj \<Rightarrow> error + string" where
  "ncaaf_winning_abbr site self =
     bind (ncaaf_winner self) (\<lambda>winner.
       if winner = HOME then ncaaf_abbr_of site self ''_home_name''
       else ncaaf_abbr_of site self ''_away_name'')"

definition ncaaf_losing_name :: "obj \<Rightarrow> error + string" where
  "ncaaf_losing_name self =
     bind (ncaaf_winner self) (\<lambda>winner.
       if winner = HOME then bind (getattr self ''_away_name'') py_text
       else bind (getattr self ''_home_name'') py_text)"

definition ncaaf_losing_abbr :: "('doc, 'f) site \<Rightarrow> obj \<Rightarrow> error + string" where
  "ncaaf_losing_abbr site self =
     bind (ncaaf_winner self) (\<lambda>winner.
       if winner = HOME then ncaaf_abbr_of site self ''_away_name''
       else ncaaf_abbr_of site self ''_home_name'')"

subsection \<open>The tabular export\<close>

datatype 'f cell = CRaw raw | CStr string | CInt int | CFloat 'f | CLoc location | CTod daytime

text \<open>
  A dictionary display evaluates its values in the order written; the first
  exception ends it.
\<close>

fun collect :: "(string \<times> (obj \<Rightarrow> error + 'f cell)) list \<Rightarrow> obj \<Rightarrow> error + (string \<times> 'f cell) list" where
  "collect [] self = Inr []"
| "collect ((key, property) # rest) self =
     bind (property self) (\<lambda>v. bind (collect rest self) (\<lambda>row. Inr ((key, v) # row)))"

definition ncaaf_fields_to_include ::
    "('doc, 'f) site \<Rightarrow> (string \<times> (obj \<Rightarrow> error + 'f cell)) list" where
  "ncaaf_fields_to_include site =
     [
      (''away_first_downs'', \<lambda>self. bind (ncaaf_away_first_downs self) (\<lambda>v. Inr (CInt v))),
      (''away_fumbles'', \<lambda>self. bind (ncaaf_away_fumbles self) (\<lambda>v. Inr (CInt v))),
      (''away_fumbles_lost'', \<lambda>self. bind (ncaaf_away_fumbles_lost self) (\<lambda>v. Inr (CInt v))),
      (''away_interceptions'', \<lambda>self. bind (ncaaf_away_interceptions self) (\<lambda>v. Inr (CInt v))),
      (''away_pass_attempts'', \<lambda>self. bind (ncaaf_away_pass_attempts self) (\<lambda>v. Inr (CInt v))),
      (''away_pass_completions'', \<lambda>self. bind (ncaaf_away_pass_completions self) (\<lambda>v. Inr (CInt v))),
      (''away_pass_touchdowns'', \<lambda>self. bind (ncaaf_away_pass_touchdowns self) (\<lambda>v. Inr (CInt v))),
      (''away_pass_yards'', \<lambda>self. bind (ncaaf_away_pass_yards self) (\<lambda>v. Inr (CInt v))),
      (''away_penalties'', \<lambda>self. bind (ncaaf_away_penalties self) (\<lambda>v. Inr (CInt v))),
      (''away_points'', \<lambda>self. bind (ncaaf_away_points self) (\<lambda>v. Inr (CInt v))),
      (''away_rush_attempts'', \<lambda>self. bind (ncaaf_away_rush_attempts self) (\<lambda>v. Inr (CInt v))),
      (''away_rush_touchdowns'', \<lambda>self. bind (ncaaf_away_rush_touchdowns self) (\<lambda>v. Inr (CInt v))),
      (''away_rush_yards'', \<lambda>self. bind (ncaaf_away_rush_yards self) (\<lambda>v. Inr (CInt v))),
      (''away_total_yards'', \<lambda>self. bind (ncaaf_away_total_yards self) (\<lambda>v. Inr (CInt v))),
      (''away_turnovers'', \<lambda>self. bind (ncaaf_away_turnovers self) (\<lambda>v. Inr (CInt v))),
      (''away_yards_from_penalties'', \<lambda>self. bind (ncaaf_away_yards_from_penalties self) (\<lambda>v. Inr (CInt v))),
      (''date'', \<lambda>self. bind (ncaaf_date self) (\<lambda>v. Inr (CRaw v))),
      (''home_first_downs'', \<lambda>self. bind (ncaaf_home_first_downs self) (\<lambda>v. Inr (CInt v))),
      (''home_fumbles'', \<lambda>self. bind (ncaaf_home_fumbles self) (\<lambda>v. Inr (CInt v))),
      (''home_fumbles_lost'', \<lambda>self. bind (ncaaf_home_fumbles_lost self) (\<lambda>v. Inr (CInt v))),
      (''home_interceptions'', \<lambda>self. bind (ncaaf_home_interceptions self) (\<lambda>v. Inr (CInt v))),
      (''home_pass_attempts'', \<lambda>self. bind (ncaaf_home_pass_attempts self) (\<lambda>v. Inr (CInt v))),
      (''home_pass_completions'', \<lambda>self. bind (ncaaf_home_pass_completions self) (\<lambda>v. Inr (CInt v))),
      (''home_pass_touchdowns'', \<lambda>self. bind (ncaaf_home_pass_touchdowns self) (\<lambda>v. Inr (CInt v))),
      (''home_pass_yards'', \<lambda>self. bind (ncaaf_home_pass_yards self) (\<lambda>v. Inr (CInt v))),
      (''home_penalties'', \<lambda>self. bind (ncaaf_home_penalties self) (\<lambda>v. Inr (CInt v))),
      (''home_points'', \<lambda>self. bind (ncaaf_home_points self) (\<lambda>v. Inr (CInt v))),
      (''home_rush_attempts'', \<lambda>self. bind (ncaaf_home_rush_attempts self) (\<lambda>v. Inr (CInt v))),
      (''home_rush_touchdowns'', \<lambda>self. bind (ncaaf_home_rush_touchdowns self) (\<lambda>v. Inr (CInt v))),
      (''home_rush_yards'', \<lambda>self. bind (ncaaf_home_rush_yards self) (\<lambda>v. Inr (CInt v))),
      (''home_total_yards'', \<lambda>self. bind (ncaaf_home_total_yards self) (\<lambda>v. Inr (CInt v))),
      (''home_turnovers'', \<lambda>self. bind (ncaaf_home_turnovers self) (\<lambda>v. Inr (CInt v))),
      (''home_yards_from_penalties'', \<lambda>self. bind (ncaaf_home_yards_from_penalties self) (\<lambda>v. Inr (CInt v))),
      (''losing_abbr'', \<lambda>self. bind (ncaaf_losing_abbr site self) (\<lambda>v. Inr (CStr v))),
      (''losing_name'', \<lambda>self. bind (ncaaf_losing_name self) (\<lambda>v. Inr (CStr v))),
      (''stadium'', \<lambda>self. bind (ncaaf_stadium self) (\<lambda>v. Inr (CStr v))),
      (''time'', \<lambda>self. bind (ncaaf_time self) (\<lambda>v. Inr (CStr v))),
      (''winner'', \<lambda>self. bind (ncaaf_winner self) (\<lambda>v. Inr (CLoc v))),
      (''winning_abbr'', \<lambda>self. bind (ncaaf_winning_abbr site self) (\<lambda>v. Inr (CStr v))),
      (''winning_name'', \<lambda>self. bind (ncaaf_winning_name self) (\<lambda>v. Inr (CStr v)))
     ]"

text \<open>
  \<^verbatim>\<open>Boxscore.dataframe\<close>: \<open>None\<close> is Python's \<^verbatim>\<open>None\<close>, and a DataFrame of one
  row is its index and its columns.
\<close>

definition ncaaf_dataframe ::
    "('doc, 'f) site \<Rightarrow> obj \<Rightarrow> error + (raw \<times> (string \<times> 'f cell) list) option" where
  "ncaaf_dataframe site self =
     bind (getattr self ''_away_points'') (\<lambda>away_points.
       bind (if away_points = PNone
             then bind (getattr self ''_home_points'') (\<lambda>home_points. Inr (home_points = PNone))
             else Inr False) (\<lambda>both_unset.
         if both_unset then Inr None
         else
           bind (collect (ncaaf_fields_to_include site) self) (\<lambda>row.
             bind (getattr self ''_uri'') (\<lambda>uri. Inr (Some (uri, row))))))"

section \<open>MLB: the Boxscore class\<close>

definition mlb_retrieve_html_page :: "('doc, 'f) site \<Rightarrow> string \<Rightarrow> error + 'doc option" where
  "mlb_retrieve_html_page site uri =
     (let url = BOXSCORE_URL site uri in
      case pq site url of
        Inl e \<Rightarrow> Inr None
      | Inr url_data \<Rightarrow> bind (pq_without_comments site url_data) (\<lambda>d. Inr (Some d)))"

definition mlb_parse_name :: "('doc, 'f) site \<Rightarrow> string \<Rightarrow> 'doc \<Rightarrow> error + name_tag" where
  "mlb_parse_name site field boxscore =
     bind (lookup (BOXSCORE_SCHEME site) field) (\<lambda>scheme. Inr (query site boxscore scheme))"

text \<open>
  The attributes that \<^verbatim>\<open>__init__\<close> sets to \<^verbatim>\<open>None\<close>, in its order (lines 31-114).
  The source assigns \<^verbatim>\<open>_losing_abbr\<close> twice; a dictionary keeps one key.
\<close>

definition mlb_fields :: "string list" where
  "mlb_fields =
    [''_date'', ''_time'', ''_attendance'', ''_venue'', ''_time_of_day'', ''_duration'',
     ''_away_name'', ''_home_name'', ''_winner'', ''_winning_name'', ''_winning_abbr'',
     ''_losing_name'', ''_losing_abbr'', ''_away_at_bats'', ''_away_runs'', ''_away_hits'',
     ''_away_rbi'', ''_away_earned_runs'', ''_away_bases_on_balls'', ''_away_strikeouts'',
     ''_away_plate_appearances'', ''_away_batting_average'', ''_away_on_base_percentage'',
     ''_away_slugging_percentage'', ''_away_on_base_plus'', ''_away_pitches'',
     ''_away_strikes'', ''_away_win_probability_for_offensive_player'',
     ''_away_average_leverage_index'', ''_away_win_probability_added'',
     ''_away_win_probability_subtracted'', ''_away_base_out_runs_added'',
     ''_away_putouts'', ''_away_assists'', ''_away_innings_pitched'', ''_away_home_runs'',
     ''_away_strikes_by_contact'', ''_away_strikes_swinging'', ''_away_strikes_looking'',
     ''_away_grounded_balls'', ''_away_fly_balls'', ''_away_line_drives'',
     ''_away_unknown_bat_type'', ''_away_game_score'', ''_away_inherited_runners'',
     ''_away_inherited_score'', ''_away_win_probability_by_pitcher'',
     ''_away_base_out_runs_saved'', ''_home_at_bats'', ''_home_runs'', ''_home_hits'',
     ''_home_rbi'', ''_home_earned_runs'', ''_home_bases_on_balls'', ''_home_strikeouts'',
     ''_home_plate_appearances'', ''_home_batting_average'', ''_home_on_base_percentage'',
     ''_home_slugging_percentage'', ''_home_on_base_plus'', ''_home_pitches'',
     ''_home_strikes'', ''_home_win_probability_for_offensive_player'',
     ''_home_average_leverage_index'', ''_home_win_probability_added'',
     ''_home_win_probability_subtracted'', ''_home_base_out_runs_added'',
     ''_home_putouts'', ''_home_assists'', ''_home_innings_pitched'', ''_home_home_runs'',
     ''_home_strikes_by_contact'', ''_home_strikes_swinging'', ''_home_strikes_looking'',
     ''_home_grounded_balls'', ''_home_fly_balls'', ''_home_line_drives'',
     ''_home_unknown_bat_type'', ''_home_game_score'', ''_home_inherited_runners'',
     ''_home_inherited_score'', ''_home_win_probability_by_pitcher'',
     ''_home_base_out_runs_saved'']"

definition mlb_new :: "string \<Rightarrow> obj" where
  "mlb_new uri = map_of ((''_uri'', PStr uri) # map (\<lambda>name. (name, PNone)) mlb_fields)"

fun mlb_field_loop ::
    "('doc, 'f) site \<Rightarrow> 'doc \<Rightarrow> string list \<Rightarrow> obj \<Rightarrow> error + obj" where
  "mlb_field_loop site boxscore [] self = Inr self"
| "mlb_field_loop site boxscore (field # rest) self =
     (let short_field = tl field in
      if short_field = ''winner'' \<or> short_field = ''winning_name'' \<or>
         short_field = ''winning_abbr'' \<or> short_field = ''losing_name'' \<or>
         short_field = ''losing_abbr'' \<or> short_field = ''uri''
      then mlb_field_loop site boxscore rest self
      else if short_field = ''date'' \<or> short_field = ''time'' \<or> short_field = ''venue'' \<or>
              short_field = ''attendance'' \<or> short_field = ''time_of_day'' \<or>
              short_field = ''duration''
      then bind (mlb_parse_game_date_and_location site short_field boxscore) (\<lambda>value.
             mlb_field_loop site boxscore rest (self(field \<mapsto> PStr value)))
      else if short_field = ''away_name'' \<or> short_field = ''home_name''
      then bind (mlb_parse_name site short_field boxscore) (\<lambda>value.
             mlb_field_loop site boxscore rest (self(field \<mapsto> PTag value)))
      else
        (let i = (case BOXSCORE_ELEMENT_INDEX site short_field of Some j \<Rightarrow> j | None \<Rightarrow> 0) in
         bind (utils_parse_field site boxscore short_field i) (\<lambda>value.
           mlb_field_loop site boxscore rest (self(field \<mapsto> value)))))"

definition mlb_parse_game_data :: "('doc, 'f) site \<Rightarrow> obj \<Rightarrow> string \<Rightarrow> error + obj" where
  "mlb_parse_game_data site self uri =
     bind (mlb_retrieve_html_page site uri) (\<lambda>boxscore.
       case boxscore of
         None \<Rightarrow> Inr self
       | Some d \<Rightarrow>
           if falsy site d then Inr self
           else mlb_field_loop site d (''_uri'' # mlb_fields) self)"

definition mlb_Boxscore :: "('doc, 'f) site \<Rightarrow> string \<Rightarrow> error + obj" where
  "mlb_Boxscore site uri = mlb_parse_game_data site (mlb_new uri) uri"

subsection \<open>The typed accessors\<close>

text \<open>\<^verbatim>\<open>try: ... except ValueError: return d\<close>\<close>

definition except_ValueError :: "error + 'a \<Rightarrow> 'a \<Rightarrow> error + 'a" where
  "except_ValueError r d =
     (case r of Inl e \<Rightarrow> if e = ValueError then Inr d else Inl e | Inr v \<Rightarrow> Inr v)"

definition mlb_date :: "obj \<Rightarrow> error + raw" where
  "mlb_date self = getattr self ''_date''"

definition mlb_time :: "obj \<Rightarrow> error + string" where
  "mlb_time self = bind (getattr self ''_time'') (\<lambda>v. py_replace v ''Start Time: '' '''')"

definition mlb_venue :: "obj \<Rightarrow> error + string" where
  "mlb_venue self = bind (getattr self ''_venue'') (\<lambda>v. py_replace v ''Venue: '' '''')"

definition mlb_attendance :: "obj \<Rightarrow> error + int" where
  "mlb_attendance self =
     bind (getattr self ''_attendance'') (\<lambda>v.
       bind (py_replace v ''Attendance: '' '''') (\<lambda>attendance.
         except_ValueError (int_of_str (replace attendance '','' '''')) 0))"

definition mlb_duration :: "obj \<Rightarrow> error + string" where
  "mlb_duration self =
     bind (getattr self ''_duration'') (\<lambda>v. py_replace v ''Game Duration: '' '''')"

definition mlb_time_of_day :: "obj \<Rightarrow> error + daytime" where
  "mlb_time_of_day self =
     bind (getattr self ''_time_of_day'') (\<lambda>v.
       bind (py_lower v) (\<lambda>s. if contains s ''night'' then Inr NIGHT else Inr DAY))"

definition mlb_away_runs :: "obj \<Rightarrow> error + int" where
  "mlb_away_runs self = bind (getattr self ''_away_runs'') py_int"

definition mlb_home_runs :: "obj \<Rightarrow> error + int" where
  "mlb_home_runs self = bind (getattr self ''_home_runs'') py_int"

definition mlb_winner :: "obj \<Rightarrow> error + location" where
  "mlb_winner self =
     bind (mlb_home_runs self) (\<lambda>home_runs.
       bind (mlb_away_runs self) (\<lambda>away_runs.
         if home_runs > away_runs then Inr HOME else Inr AWAY))"

definition mlb_winning_name :: "obj \<Rightarrow> error + string" where
  "mlb_winning_name self =
     bind (mlb_winner self) (\<lambda>winner.
       if winner = HOME then bind (getattr self ''_home_name'') py_text
       else bind (getattr self ''_away_name'') py_text)"

definition mlb_winning_abbr :: "('doc, 'f) site \<Rightarrow> obj \<Rightarrow> error + string" where
  "mlb_winning_abbr site self =
     bind (mlb_winner self) (\<lambda>winner.
       if winner = HOME then bind (getattr self ''_home_name'') (utils_parse_abbreviation site)
       else bind (getattr self ''_away_name'') (utils_parse_abbreviation site))"

definition mlb_losing_name :: "obj \<Rightarrow> error + string" where
  "mlb_losing_name self =
     bind (mlb_winner self) (\<lambda>winner.
       if winner = HOME then bind (getattr self ''_away_name'') py_text
       else bind (getattr self ''_home_name'') py_text)"

definition mlb_losing_abbr :: "('doc, 'f) site \<Rightarrow> obj \<Rightarrow> error + string" where
  "mlb_losing_abbr site self =
     bind (mlb_winner self) (\<lambda>winner.
       if winner = HOME then bind (getattr self ''_away_name'') (utils_parse_abbreviation site)
       else bind (getattr self ''_home_name'') (utils_parse_abbreviation site))"

text \<open>
  The seventy statistic accessors (lines 479-1036) read the attribute of their own
  name and have one of three bodies: \<^verbatim>\<open>return int(self._x)\<close>,
  \<^verbatim>\<open>return float(self._x)\<close>, or
  \<^verbatim>\<open>try: return int(self._x) except ValueError: return 0\<close>.
\<close>

datatype kind = KInt | KFloat | KIntOr0

definition mlb_statistics :: "(string \<times> kind) list" where
  "mlb_statistics =
    [(''away_at_bats'', KInt), (''away_runs'', KInt), (''away_hits'', KInt),
     (''away_rbi'', KInt), (''away_earned_runs'', KFloat), (''away_bases_on_balls'', KInt),
     (''away_strikeouts'', KInt), (''away_plate_appearances'', KInt),
     (''away_batting_average'', KFloat), (''away_on_base_percentage'', KFloat),
     (''away_slugging_percentage'', KFloat), (''away_on_base_plus'', KFloat),
     (''away_pitches'', KInt), (''away_strikes'', KInt),
     (''away_win_probability_for_offensive_player'', KFloat),
     (''away_average_leverage_index'', KFloat), (''away_win_probability_added'', KFloat),
     (''away_win_probability_subtracted'', KFloat), (''away_base_out_runs_added'', KFloat),
     (''away_putouts'', KInt), (''away_assists'', KInt),
     (''away_innings_pitched'', KFloat), (''away_home_runs'', KInt),
     (''away_strikes_by_contact'', KInt), (''away_strikes_swinging'', KInt),
     (''away_strikes_looking'', KInt), (''away_grounded_balls'', KInt),
     (''away_fly_balls'', KInt), (''away_line_drives'', KInt),
     (''away_unknown_bat_type'', KInt), (''away_game_score'', KInt),
     (''away_inherited_runners'', KIntOr0), (''away_inherited_score'', KIntOr0),
     (''away_win_probability_by_pitcher'', KFloat), (''away_base_out_runs_saved'', KFloat),
     (''home_at_bats'', KInt), (''home_runs'', KInt), (''home_hits'', KInt),
     (''home_rbi'', KInt), (''home_earned_runs'', KFloat), (''home_bases_on_balls'', KInt),
     (''home_strikeouts'', KInt), (''home_plate_appearances'', KInt),
     (''home_batting_average'', KFloat), (''home_on_base_percentage'', KFloat),
     (''home_slugging_percentage'', KFloat), (''home_on_base_plus'', KFloat),
     (''home_pitches'', KInt), (''home_strikes'', KInt),
     (''home_win_probability_for_offensive_player'', KFloat),
     (''home_average_leverage_index'', KFloat), (''home_win_probability_added'', KFloat),
     (''home_win_probability_subtracted'', KFloat), (''home_base_out_runs_added'', KFloat),
     (''home_putouts'', KInt), (''home_assists'', KInt),
     (''home_innings_pitched'', KFloat), (''home_home_runs'', KInt),
     (''home_strikes_by_contact'', KInt), (''home_strikes_swinging'', KInt),
     (''home_strikes_looking'', KInt), (''home_grounded_balls'', KInt),
     (''home_fly_balls'', KInt), (''home_line_drives'', KInt),
     (''home_unknown_bat_type'', KInt), (''home_game_score'', KInt),
     (''home_inherited_runners'', KIntOr0), (''home_inherited_score'', KIntOr0),
     (''home_win_probability_by_pitcher'', KFloat), (''home_base_out_runs_saved'', KFloat)]"

definition float_of_raw :: "('doc, 'f) site \<Rightarrow> raw \<Rightarrow> error + 'f" where
  "float_of_raw site v =
     (case v of PStr s \<Rightarrow> py_float site s | PNone \<Rightarrow> Inl TypeError | PTag t \<Rightarrow> Inl TypeError)"

definition mlb_statistic :: "('doc, 'f) site \<Rightarrow> kind \<Rightarrow> string \<Rightarrow> obj \<Rightarrow> error + 'f cell" where
  "mlb_statistic site k name self =
     bind (getattr self (CHR ''_'' # name)) (\<lambda>v.
       case k of
         KInt \<Rightarrow> bind (py_int v) (\<lambda>n. Inr (CInt n))
       | KFloat \<Rightarrow> bind (float_of_raw site v) (\<lambda>x. Inr (CFloat x))
       | KIntOr0 \<Rightarrow> bind (except_ValueError (py_int v) 0) (\<lambda>n. Inr (CInt n)))"

text \<open>\<^verbatim>\<open>getattr(self, name)\<close> for a property of the class, as a table cell.\<close>

definition mlb_property :: "('doc, 'f) site \<Rightarrow> string \<Rightarrow> obj \<Rightarrow> error + 'f cell" where
  "mlb_property site name self =
     (if name = ''date'' then bind (mlb_date self) (\<lambda>v. Inr (CRaw v))
      else if name = ''time'' then bind (mlb_time self) (\<lambda>v. Inr (CStr v))
      else if name = ''venue'' then bind (mlb_venue self) (\<lambda>v. Inr (CStr v))
      else if name = ''attendance'' then bind (mlb_attendance self) (\<lambda>v. Inr (CInt v))
      else if name = ''duration'' then bind (mlb_duration self) (\<lambda>v. Inr (CStr v))
      else if name = ''time_of_day'' then bind (mlb_time_of_day self) (\<lambda>v. Inr (CTod v))
      else if name = ''winner'' then bind (mlb_winner self) (\<lambda>v. Inr (CLoc v))
      else if name = ''winning_name'' then bind (mlb_winning_name self) (\<lambda>v. Inr (CStr v))
      else if name = ''winning_abbr'' then bind (mlb_winning_abbr site self) (\<lambda>v. Inr (CStr v))
      else if name = ''losing_name'' then bind (mlb_losing_name self) (\<lambda>v. Inr (CStr v))
      else if name = ''losing_abbr'' then bind (mlb_losing_abbr site self) (\<lambda>v. Inr (CStr v))
      else
        (case map_of mlb_statistics name of
           Some k \<Rightarrow> mlb_statistic site k name self
         | None \<Rightarrow> Inl AttributeError))"

subsection \<open>The tabular export\<close>

text \<open>The keys of \<^verbatim>\<open>fields_to_include\<close> (lines 287-375); each value is the property of that name.\<close>

definition mlb_columns :: "string list" where
  "mlb_columns =
    [''date'', ''time'', ''venue'', ''attendance'', ''duration'', ''time_of_day'',
     ''winner'', ''winning_name'', ''winning_abbr'', ''losing_name'', ''losing_abbr'',
     ''away_at_bats'', ''away_runs'', ''away_hits'', ''away_rbi'', ''away_earned_runs'',
     ''away_bases_on_balls'', ''away_strikeouts'', ''away_plate_appearances'',
     ''away_batting_average'', ''away_on_base_percentage'', ''away_slugging_percentage'',
     ''away_on_base_plus'', ''away_pitches'', ''away_strikes'',
     ''away_win_probability_for_offensive_player'', ''away_average_leverage_index'',
     ''away_win_probability_added'', ''away_win_probability_subtracted'',
     ''away_base_out_runs_added'', ''away_putouts'', ''away_assists'',
     ''away_innings_pitched'', ''away_home_runs'', ''away_strikes_by_contact'',
     ''away_strikes_swinging'', ''away_strikes_looking'', ''away_grounded_balls'',
     ''away_fly_balls'', ''away_line_drives'', ''away_unknown_bat_type'',
     ''away_game_score'', ''away_inherited_runners'', ''away_inherited_score'',
     ''away_win_probability_by_pitcher'', ''away_base_out_runs_saved'', ''home_at_bats'',
     ''home_runs'', ''home_hits'', ''home_rbi'', ''home_earned_runs'',
     ''home_bases_on_balls'', ''home_strikeouts'', ''home_plate_appearances'',
     ''home_batting_average'', ''home_on_base_percentage'', ''home_slugging_percentage'',
     ''home_on_base_plus'', ''home_pitches'', ''home_strikes'',
     ''home_win_probability_for_offensive_player'', ''home_average_leverage_index'',
     ''home_win_probability_added'', ''home_win_probability_subtracted'',
     ''home_base_out_runs_added'', ''home_putouts'', ''home_assists'',
     ''home_innings_pitched'', ''home_home_runs'', ''home_strikes_by_contact'',
     ''home_strikes_swinging'', ''home_strikes_looking'', ''home_grounded_balls'',
     ''home_fly_balls'', ''home_line_drives'', ''home_unknown_bat_type'',
     ''home_game_score'', ''home_inherited_runners'', ''home_inherited_score'',
     ''home_win_probability_by_pitcher'', ''home_base_out_runs_saved'']"

definition mlb_fields_to_include ::
    "('doc, 'f) site \<Rightarrow> (string \<times> (obj \<Rightarrow> error + 'f cell)) list" where
  "mlb_fields_to_include site = map (\<lambda>name. (name, mlb_property site name)) mlb_columns"

definition mlb_dataframe ::
    "('doc, 'f) site \<Rightarrow> obj \<Rightarrow> error + (raw \<times> (string \<times> 'f cell) list) option" where
  "mlb_dataframe site self =
     bind (getattr self ''_away_runs'') (\<lambda>away_runs.
       bind (if away_runs = PNone
             then bind (getattr self ''_home_runs'') (\<lambda>home_runs. Inr (home_runs = PNone))
             else Inr False) (\<lambda>both_unset.
         if both_unset then Inr None
         else
           bind (collect (mlb_fields_to_include site) self) (\<lambda>row.
             bind (getattr self ''_uri'') (\<lambda>uri. Inr (Some (uri, row))))))"

section \<open>The game-day finders\<close>

text \<open>The attributes of the \<^verbatim>\<open>datetime\<close> argument that \<^verbatim>\<open>_create_url\<close> reads.\<close>

record datetime =
  year :: int
  month :: int
  day :: int

subsection \<open>NCAAF: the Boxscores class\<close>

text \<open>One dictionary of the list \<^verbatim>\<open>games['boxscores']\<close>.\<close>

record ncaaf_game_info =
  ncaaf_boxscore :: string
  ncaaf_away_name :: string
  ncaaf_away_abbr :: string
  ncaaf_home_name :: string
  ncaaf_home_abbr :: string
  ncaaf_non_di :: bool

definition ncaaf_create_url :: "('doc, 'f) site \<Rightarrow> datetime \<Rightarrow> string" where
  "ncaaf_create_url site date = BOXSCORES_URL site (month date) (day date) (year date)"

text \<open>\<^verbatim>\<open>Boxscores._get_requested_page\<close> is \<^verbatim>\<open>return pq(url)\<close>, with no handler.\<close>

definition ncaaf_get_requested_page :: "('doc, 'f) site \<Rightarrow> string \<Rightarrow> error + 'doc" where
  "ncaaf_get_requested_page site url = pq site url"

definition ncaaf_get_boxscore_uri :: "name_tag \<Rightarrow> string" where
  "ncaaf_get_boxscore_uri url =
     (let uri = re_sub_upto ''cfb/boxscores/'' (tag_str url);
          uri = strip (re_sub_from ''.html'' uri)
      in uri)"

text \<open>\<^verbatim>\<open>Boxscores._parse_abbreviation\<close>: \<open>None\<close> is Python's \<^verbatim>\<open>None\<close>.\<close>

definition ncaaf_parse_abbreviation :: "name_tag \<Rightarrow> string option" where
  "ncaaf_parse_abbreviation abbr =
     (if \<not> contains (tag_str abbr) ''cfb/schools'' then None
      else
        (let abbr1 = re_sub_upto ''/schools/'' (tag_str abbr);
             abbr2 = re_sub_from ''/'' abbr1
         in Some abbr2))"

text \<open>
  \<^verbatim>\<open>Boxscores._get_name\<close>. \<^verbatim>\<open>not abbr\<close> holds for \<^verbatim>\<open>None\<close> and for the empty
  string.
\<close>

definition ncaaf_get_name :: "name_tag \<Rightarrow> string \<times> string \<times> bool" where
  "ncaaf_get_name name =
     (let team_name = tag_text name;
          abbr = ncaaf_parse_abbreviation name
      in case abbr of
           None \<Rightarrow> (team_name, team_name, True)
         | Some a \<Rightarrow> if a = '''' then (team_name, team_name, True) else (team_name, a, False))"

definition ncaaf_get_team_names ::
    "game \<Rightarrow> error + (string \<times> string \<times> string \<times> string \<times> bool)" where
  "ncaaf_get_team_names g =
     (let links = td_a g in
      bind (index links 0) (\<lambda>away.
        bind (index links (- 1)) (\<lambda>home.
          case ncaaf_get_name away of (away_name, away_abbr, away_non_di) \<Rightarrow>
          case ncaaf_get_name home of (home_name, home_abbr, home_non_di) \<Rightarrow>
            Inr (away_name, away_abbr, home_name, home_abbr, away_non_di \<or> home_non_di))))"

fun ncaaf_extract_game_info :: "game list \<Rightarrow> error + ncaaf_game_info list" where
  "ncaaf_extract_game_info [] = Inr []"
| "ncaaf_extract_game_info (g # games) =
     bind (ncaaf_get_team_names g) (\<lambda>(away_name, away_abbr, home_name, home_abbr, non_di).
       let boxscore_url = gamelink g;
           boxscore_uri = ncaaf_get_boxscore_uri boxscore_url;
           game_info = \<lparr>ncaaf_boxscore = boxscore_uri,
                        ncaaf_away_name = away_name, ncaaf_away_abbr = away_abbr,
                        ncaaf_home_name = home_name, ncaaf_home_abbr = home_abbr,
                        ncaaf_non_di = non_di\<rparr>
       in bind (ncaaf_extract_game_info games) (\<lambda>all_boxscores.
            Inr (game_info # all_boxscores)))"

definition ncaaf_find_games :: "('doc, 'f) site \<Rightarrow> datetime \<Rightarrow> error + ncaaf_game_info list" where
  "ncaaf_find_games site date =
     (let url = ncaaf_create_url site date in
      bind (ncaaf_get_requested_page site url) (\<lambda>page.
        let games = teams_tables site page in
        ncaaf_extract_game_info games))"

text \<open>\<^verbatim>\<open>Boxscores(date).games['boxscores']\<close>\<close>

definition ncaaf_Boxscores :: "('doc, 'f) site \<Rightarrow> datetime \<Rightarrow> error + ncaaf_game_info list" where
  "ncaaf_Boxscores site date = ncaaf_find_games site date"

subsection \<open>MLB: the Boxscores class\<close>

record mlb_game_info =
  mlb_boxscore :: string
  mlb_away_name :: string
  mlb_away_abbr :: string
  mlb_home_name :: string
  mlb_home_abbr :: string

definition mlb_create_url :: "('doc, 'f) site \<Rightarrow> datetime \<Rightarrow> string" where
  "mlb_create_url site date = BOXSCORES_URL site (year date) (month date) (day date)"

definition mlb_get_requested_page :: "('doc, 'f) site \<Rightarrow> string \<Rightarrow> error + 'doc" where
  "mlb_get_requested_page site url = pq site url"

definition mlb_get_boxscore_uri :: "name_tag \<Rightarrow> string" where
  "mlb_get_boxscore_uri url =
     (let uri = re_sub_upto ''/boxes/'' (tag_str url);
          uri = strip (re_sub_from ''.shtml'' uri)
      in uri)"

definition mlb_parse_abbreviation :: "name_tag \<Rightarrow> string" where
  "mlb_parse_abbreviation abbr =
     (let abbr1 = re_sub_upto ''/teams/'' (tag_str abbr);
          abbr2 = re_sub_from ''/'' abbr1
      in abbr2)"

definition mlb_get_name :: "name_tag \<Rightarrow> string \<times> string" where
  "mlb_get_name name =
     (let team_name = tag_text name;
          abbr = mlb_parse_abbreviation name
      in (team_name, abbr))"

definition mlb_get_team_names :: "game \<Rightarrow> error + (string \<times> string \<times> string \<times> string)" where
  "mlb_get_team_names g =
     (let links = td_a g in
      bind (index links 0) (\<lambda>away.
        bind (index links (- 1)) (\<lambda>home.
          case mlb_get_name away of (away_name, away_abbr) \<Rightarrow>
          case mlb_get_name home of (home_name, home_abbr) \<Rightarrow>
            Inr (away_name, away_abbr, home_name, home_abbr))))"

fun mlb_extract_game_info :: "game list \<Rightarrow> error + mlb_game_info list" where
  "mlb_extract_game_info [] = Inr []"
| "mlb_extract_game_info (g # games) =
     bind (mlb_get_team_names g) (\<lambda>(away_name, away_abbr, home_name, home_abbr).
       let boxscore_url = gamelink g;
           boxscore_uri = mlb_get_boxscore_uri boxscore_url;
           game_info = \<lparr>mlb_boxscore = boxscore_uri,
                        mlb_away_name = away_name, mlb_away_abbr = away_abbr,
                        mlb_home_name = home_name, mlb_home_abbr = home_abbr\<rparr>
       in bind (mlb_extract_game_info games) (\<lambda>all_boxscores.
            Inr (game_info # all_boxscores)))"

definition mlb_find_games :: "('doc, 'f) site \<Rightarrow> datetime \<Rightarrow> error + mlb_game_info list" where
  "mlb_find_games site date =
     (let url = mlb_create_url site date in
      bind (mlb_get_requested_page site url) (\<lambda>page.
        let games = teams_tables site page in
        mlb_extract_game_info games))"

definition mlb_Boxscores :: "('doc, 'f) site \<Rightarrow> datetime \<Rightarrow> error + mlb_game_info list" where
  "mlb_Boxscores site date = mlb_find_games site date"

section \<open>Reference definitions for the properties\<close>

text \<open>
  The composite-field policy in the words of the specification: double dashes are
  normalized, the string is split on the dash, and a field is the integer at a
  fixed position of the parts. Reading a position that is not there is Python's
  IndexError.
\<close>

definition normalized_parts :: "string \<Rightarrow> string list" where
  "normalized_parts s = split (replace s ''--'' ''-'') CHR ''-''"

definition part_as_int :: "string \<Rightarrow> nat \<Rightarrow> error + int" where
  "part_as_int s k =
     (if k < length (normalized_parts s) then int_of_str (normalized_parts s ! k)
      else Inl IndexError)"

text \<open>
  The composite accessors of the NCAAF Boxscore, each with the raw attribute its body
  reads and the position it takes (lines 376-650 of the module).
\<close>

definition ncaaf_composite_accessors :: "((obj \<Rightarrow> error + int) \<times> string \<times> nat) list" where
  "ncaaf_composite_accessors =
     [
      (ncaaf_away_rush_attempts, ''_away_rush_attempts'', 0),
      (ncaaf_away_rush_yards, ''_away_rush_yards'', 1),
      (ncaaf_away_rush_touchdowns, ''_away_rush_touchdowns'', 2),
      (ncaaf_away_pass_completions, ''_away_pass_completions'', 0),
      (ncaaf_away_pass_attempts, ''_away_pass_attempts'', 1),
      (ncaaf_away_pass_yards, ''_away_pass_yards'', 2),
      (ncaaf_away_pass_touchdowns, ''_away_pass_touchdowns'', 3),
      (ncaaf_away_interceptions, ''_away_interceptions'', 4),
      (ncaaf_away_fumbles, ''_away_fumbles'', 0),
      (ncaaf_away_fumbles_lost, ''_away_fumbles'', 1),
      (ncaaf_away_penalties, ''_away_penalties'', 0),
      (ncaaf_away_yards_from_penalties, ''_away_yards_from_penalties'', 1),
      (ncaaf_home_rush_attempts, ''_home_rush_attempts'', 0),
      (ncaaf_home_rush_yards, ''_home_rush_yards'', 1),
      (ncaaf_home_rush_touchdowns, ''_home_rush_touchdowns'', 2),
      (ncaaf_home_pass_completions, ''_home_pass_completions'', 0),
      (ncaaf_home_pass_attempts, ''_home_pass_attempts'', 1),
      (ncaaf_home_pass_yards, ''_home_pass_yards'', 2),
      (ncaaf_home_pass_touchdowns, ''_home_pass_touchdowns'', 3),
      (ncaaf_home_interceptions, ''_home_pass_touchdowns'', 4),
      (ncaaf_home_fumbles, ''_home_fumbles'', 0),
      (ncaaf_home_fumbles_lost, ''_home_fumbles_lost'', 1),
      (ncaaf_home_penalties, ''_home_penalties'', 0),
      (ncaaf_home_yards_from_penalties, ''_home_yards_from_penalties'', 1)
     ]"

section \<open>Example sites\<close>

text \<open>
  A site whose every download fails, and whose tables are empty: what the classes
  see when the network is down.
\<close>

definition offline :: "(unit, unit) site" where
  "offline =
     \<lparr>BOXSCORE_URL = (\<lambda>uri. ''https://www.example.org/boxes/'' @ uri),
      BOXSCORES_URL = (\<lambda>a b c. ''https://www.example.org/boxes/index''),
      BOXSCORE_SCHEME = (\<lambda>field. None),
      BOXSCORE_ELEMENT_INDEX = (\<lambda>field. None),
      DOUBLE_HEADER_INDICES = (\<lambda>field. None),
      pq = (\<lambda>url. Inl HTTPError),
      pq_without_comments = (\<lambda>d. Inr d),
      falsy = (\<lambda>d. False),
      items_text = (\<lambda>d scheme. []),
      query = (\<lambda>d scheme. \<lparr>tag_str = '''', tag_text = ''''\<rparr>),
      utils_parse_field = (\<lambda>d field i. Inr PNone),
      utils_parse_abbreviation = (\<lambda>v. Inr ''''),
      teams_tables = (\<lambda>d. []),
      py_float = (\<lambda>s. Inl ValueError)\<rparr>"

text \<open>
  A site whose documents are the list of texts that the narrative selector
  matches. The scheme of a field is its name, the narrative fields sit at the
  lines 0 to 5, and the doubleheader markers are the lower-case labels of the
  lines.
\<close>

definition narrative_site :: "(string list, unit) site" where
  "narrative_site =
     \<lparr>BOXSCORE_URL = (\<lambda>uri. ''https://www.example.org/boxes/'' @ uri),
      BOXSCORES_URL = (\<lambda>a b c. ''https://www.example.org/boxes/index''),
      BOXSCORE_SCHEME = (\<lambda>field. Some field),
      BOXSCORE_ELEMENT_INDEX =
        map_of [(''date'', 0), (''time'', 1), (''attendance'', 2), (''venue'', 3),
                (''duration'', 4), (''time_of_day'', 5), (''stadium'', 2)],
      DOUBLE_HEADER_INDICES =
        map_of [(''time'', ''start time''), (''attendance'', ''attendance''),
                (''venue'', ''venue''), (''duration'', ''game duration'')],
      pq = (\<lambda>url. Inl HTTPError),
      pq_without_comments = (\<lambda>d. Inr d),
      falsy = (\<lambda>d. d = []),
      items_text = (\<lambda>d scheme. d),
      query = (\<lambda>d scheme. \<lparr>tag_str = '''', tag_text = ''''\<rparr>),
      utils_parse_field = (\<lambda>d field i. Inr PNone),
      utils_parse_abbreviation = (\<lambda>v. Inr ''''),
      teams_tables = (\<lambda>d. []),
      py_float = (\<lambda>s. Inl ValueError)\<rparr>"

text \<open>
  The narrative block in the words of the specification. A bowl or championship
  game is one whose first line names no weekday. The line selected for a field is
  absent, the empty string, when it lies past the end of the block, is empty or
  carries the image-credit watermark. In a doubleheader a field is the first line
  that carries its marker, and the empty string when no line does.
\<close>

definition has_weekday :: "string \<Rightarrow> bool" where
  "has_weekday line = list_ex (\<lambda>day. contains (lower line) day) weekdays"

definition selected_line :: "string list \<Rightarrow> nat \<Rightarrow> string" where
  "selected_line lines k =
     (if length lines \<le> k then ''''
      else if contains (lower (lines ! k)) ''sports logos.net'' \<or> lines ! k = '''' then ''''
      else lines ! k)"

definition first_line_with :: "(string \<Rightarrow> bool) \<Rightarrow> string list \<Rightarrow> string" where
  "first_line_with marked lines = (case find marked lines of Some line \<Rightarrow> line | None \<Rightarrow> '''')"

text \<open>
  The decimal numeral of a natural number: what a well-formed composite string
  such as \<^verbatim>\<open>10-20-150-2-1\<close> is made of.
\<close>

function decimal :: "nat \<Rightarrow> string" where
  "decimal n =
     (if n < 10 then [''0123456789'' ! n]
      else decimal (n div 10) @ [''0123456789'' ! (n mod 10)])"
  by pat_completeness auto
termination
  by (relation "measure (\<lambda>n. n)") auto

declare decimal.simps [simp del]

section \<open>Basic facts\<close>

lemma bind_Inr [simp]: "bind (Inr v) f = f v"
  by (simp add: bind_def)

lemma bind_Inl [simp]: "bind (Inl e) f = Inl e"
  by (simp add: bind_def)

lemma getattr_Some [simp]: "self name = Some v \<Longrightarrow> getattr self name = Inr v"
  by (simp add: getattr_def)

lemma split_not_Nil [simp]: "split s sep \<noteq> []"
  by (induction s) (simp_all add: Let_def)

lemma index_nat:
  "0 \<le> i \<Longrightarrow> index xs i = (if nat i < length xs then Inr (xs ! nat i) else Inl IndexError)"
  by (auto simp add: index_def nat_less_iff)

lemma composite_part:
  "self attr = Some (PStr s) \<Longrightarrow> 0 \<le> pos \<Longrightarrow>
     composite self attr pos = part_as_int s (nat pos)"
  by (simp add: composite_def py_replace_def index_nat part_as_int_def normalized_parts_def
      Let_def)

lemmas ncaaf_composite_defs =
  ncaaf_away_rush_attempts_def ncaaf_away_rush_yards_def ncaaf_away_rush_touchdowns_def
  ncaaf_away_pass_completions_def ncaaf_away_pass_attempts_def ncaaf_away_pass_yards_def
  ncaaf_away_pass_touchdowns_def ncaaf_away_interceptions_def ncaaf_away_fumbles_def
  ncaaf_away_fumbles_lost_def ncaaf_away_penalties_def ncaaf_away_yards_from_penalties_def
  ncaaf_home_rush_attempts_def ncaaf_home_rush_yards_def ncaaf_home_rush_touchdowns_def
  ncaaf_home_pass_completions_def ncaaf_home_pass_attempts_def ncaaf_home_pass_yards_def
  ncaaf_home_pass_touchdowns_def ncaaf_home_interceptions_def ncaaf_home_fumbles_def
  ncaaf_home_fumbles_lost_def ncaaf_home_penalties_def ncaaf_home_yards_from_penalties_def

lemma composite_table:
  "\<forall>(acc, attr, k) \<in> set ncaaf_composite_accessors.
     \<forall>self s. self attr = Some (PStr s) \<longrightarrow> acc self = part_as_int s k"
  unfolding ncaaf_composite_accessors_def
  by (simp add: ncaaf_composite_defs composite_part)

section \<open>Strings\<close>

lemma startswith_iff: "startswith s p = (\<exists>b. s = p @ b)"
proof
  assume "startswith s p"
  then have "s = p @ drop (length p) s"
    by (metis append_take_drop_id startswith_def)
  then show "\<exists>b. s = p @ b" ..
next
  assume "\<exists>b. s = p @ b"
  then show "startswith s p"
    by (auto simp add: startswith_def)
qed

lemma contains_iff: "contains s sub = (\<exists>a b. s = a @ sub @ b)"
proof (induction s)
  case Nil
  then show ?case by auto
next
  case (Cons c cs)
  show ?case
  proof
    assume "contains (c # cs) sub"
    then consider "startswith (c # cs) sub" | "contains cs sub"
      by auto
    then show "\<exists>a b. c # cs = a @ sub @ b"
    proof cases
      case 1
      then obtain b where "c # cs = sub @ b"
        by (auto simp add: startswith_iff)
      then have "c # cs = [] @ sub @ b"
        by simp
      then show ?thesis by blast
    next
      case 2
      with Cons.IH obtain a b where "cs = a @ sub @ b"
        by auto
      then have "c # cs = (c # a) @ sub @ b"
        by simp
      then show ?thesis by blast
    qed
  next
    assume "\<exists>a b. c # cs = a @ sub @ b"
    then obtain a b where eq: "c # cs = a @ sub @ b"
      by auto
    show "contains (c # cs) sub"
    proof (cases a)
      case Nil
      with eq have "startswith (c # cs) sub"
        by (auto simp add: startswith_iff)
      then show ?thesis by simp
    next
      case (Cons x xs)
      with eq have "cs = xs @ sub @ b"
        by simp
      with Cons.IH have "contains cs sub"
        by auto
      then show ?thesis by simp
    qed
  qed
qed

lemma contains_lower_part:
  "contains (lower line) m \<Longrightarrow> contains (lower (a @ line @ b)) m"
proof -
  assume "contains (lower line) m"
  then obtain x y where "lower line = x @ m @ y"
    by (auto simp add: contains_iff)
  then have "lower (a @ line @ b) = (lower a @ x) @ m @ (y @ lower b)"
    by (simp add: lower_def)
  then show ?thesis
    unfolding contains_iff by blast
qed

lemma split_no_sep: "sep \<notin> set s \<Longrightarrow> split s sep = [s]"
  by (induction s) (auto simp add: Let_def)

lemma split_part_of:
  "line \<in> set (split s sep) \<Longrightarrow> \<exists>a b. s = a @ line @ b"
proof (induction s arbitrary: line)
  case Nil
  then show ?case by simp
next
  case (Cons c cs)
  show ?case
  proof (cases "c = sep")
    case True
    with Cons.prems have "line = [] \<or> line \<in> set (split cs sep)"
      by simp
    then show ?thesis
    proof
      assume "line = []"
      then have "c # cs = [] @ line @ (c # cs)"
        by simp
      then show ?thesis by blast
    next
      assume "line \<in> set (split cs sep)"
      with Cons.IH obtain a b where "cs = a @ line @ b"
        by blast
      then have "c # cs = (c # a) @ line @ b"
        by simp
      then show ?thesis by blast
    qed
  next
    case False
    obtain p ps where parts: "split cs sep = p # ps"
      by (cases "split cs sep") simp_all
    with False Cons.prems have "line = c # p \<or> line \<in> set ps"
      by (simp add: Let_def)
    then show ?thesis
    proof
      assume line: "line = c # p"
      from parts have "p \<in> set (split cs sep)"
        by simp
      with Cons.IH obtain a b where ab: "cs = a @ p @ b"
        by blast
      have "\<exists>b'. cs = p @ b'"
        using parts
      proof (induction cs arbitrary: p ps)
        case Nil
        then show ?case by simp
      next
        case (Cons d ds)
        then show ?case
          by (cases "d = sep"; cases "split ds sep") (auto simp add: Let_def)
      qed
      then obtain b' where "cs = p @ b'" ..
      with line have "c # cs = [] @ line @ b'"
        by simp
      then show ?thesis by blast
    next
      assume "line \<in> set ps"
      with parts have "line \<in> set (split cs sep)"
        by simp
      with Cons.IH obtain a b where "cs = a @ line @ b"
        by blast
      then have "c # cs = (c # a) @ line @ b"
        by simp
      then show ?thesis by blast
    qed
  qed
qed

lemma after_last_None_iff: "lit \<noteq> [] \<Longrightarrow> (after_last s lit = None) = (\<not> contains s lit)"
  by (induction s) (auto split: option.splits)

lemma after_last_append:
  "lit \<noteq> [] \<Longrightarrow> after_last (tl (lit @ t)) lit = None \<Longrightarrow>
     after_last (pre @ lit @ t) lit = Some t"
proof (induction pre)
  case Nil
  then obtain l ls where lit: "lit = l # ls"
    by (cases lit) auto
  with Nil show ?case
    by (simp add: startswith_def)
next
  case (Cons p pre)
  then show ?case
    by simp
qed

lemma before_first_append:
  "c \<notin> set code \<Longrightarrow> before_first (code @ c # rest) [c] = code"
  by (induction code) (auto simp add: startswith_def)

lemma re_sub_upto_line:
  "newline \<notin> set s \<Longrightarrow>
     re_sub_upto lit s = (case after_last s lit of Some r \<Rightarrow> r | None \<Rightarrow> s)"
  by (simp add: re_sub_upto_def split_no_sep)

lemma re_sub_from_line: "newline \<notin> set s \<Longrightarrow> re_sub_from lit s = before_first s lit"
  by (simp add: re_sub_from_def split_no_sep)

section \<open>Well-formed composite strings\<close>

lemma digit_value_digit: "d < 10 \<Longrightarrow> digit_value (''0123456789'' ! d) = Some d"
proof -
  assume "d < 10"
  then have "d \<in> set [0, 1, 2, 3, 4, 5, 6, 7, 8, 9]"
    by auto
  then show ?thesis
    by (auto simp add: digit_value_def)
qed

lemma digit_not_special:
  "digit_value c = Some d \<Longrightarrow> c \<noteq> CHR ''_'' \<and> c \<noteq> CHR ''-'' \<and> c \<noteq> CHR ''+'' \<and> \<not> is_space c"
  by (auto simp add: digit_value_def is_space_def split: if_splits)

lemma decimal_digits: "decimal n \<noteq> [] \<and> (\<forall>c \<in> set (decimal n). \<exists>d. digit_value c = Some d)"
proof (induction n rule: decimal.induct)
  case (1 n)
  show ?case
  proof (cases "n < 10")
    case True
    then show ?thesis
      by (simp add: decimal.simps [of n] digit_value_digit)
  next
    case False
    with 1 show ?thesis
      by (simp add: decimal.simps [of n] digit_value_digit)
  qed
qed

lemma digits_ok_all:
  "ds \<noteq> [] \<Longrightarrow> \<forall>c \<in> set ds. \<exists>d. digit_value c = Some d \<Longrightarrow> digits_ok ds"
proof (induction ds rule: digits_ok.induct)
  case 1
  then show ?case by simp
next
  case (2 c)
  then show ?case by auto
next
  case (3 c d cs)
  from 3(4) obtain v where "digit_value d = Some v"
    by auto
  then have "d \<noteq> CHR ''_''"
    using digit_not_special by blast
  with 3 show ?case
    by auto
qed

lemma digits_num_snoc:
  "c \<noteq> CHR ''_'' \<Longrightarrow>
     digits_num (ds @ [c]) = 10 * digits_num ds + (case digit_value c of Some d \<Rightarrow> d | None \<Rightarrow> 0)"
  by (simp add: digits_num_def)

lemma digits_num_decimal: "digits_num (decimal n) = n"
proof (induction n rule: decimal.induct)
  case (1 n)
  show ?case
  proof (cases "n < 10")
    case True
    then have digit: "digit_value (''0123456789'' ! n) = Some n"
      by (rule digit_value_digit)
    then have "''0123456789'' ! n \<noteq> CHR ''_''"
      using digit_not_special by blast
    then have "digits_num [''0123456789'' ! n] = 10 * digits_num [] + n"
      using digit digits_num_snoc [of "''0123456789'' ! n" "[]"] by simp
    moreover have "digits_num [] = 0"
      by (simp add: digits_num_def)
    moreover from True have "decimal n = [''0123456789'' ! n]"
      by (simp add: decimal.simps [of n])
    ultimately show ?thesis
      by simp
  next
    case False
    have digit: "digit_value (''0123456789'' ! (n mod 10)) = Some (n mod 10)"
      by (rule digit_value_digit) simp
    then have "''0123456789'' ! (n mod 10) \<noteq> CHR ''_''"
      using digit_not_special by blast
    then have "digits_num (decimal (n div 10) @ [''0123456789'' ! (n mod 10)])
        = 10 * digits_num (decimal (n div 10)) + n mod 10"
      using digit digits_num_snoc [of "''0123456789'' ! (n mod 10)" "decimal (n div 10)"]
      by simp
    moreover from False 1 have "digits_num (decimal (n div 10)) = n div 10"
      by simp
    moreover from False have "decimal n = decimal (n div 10) @ [''0123456789'' ! (n mod 10)]"
      by (simp add: decimal.simps [of n])
    ultimately show ?thesis
      by simp
  qed
qed

lemma strip_no_space: "\<forall>c \<in> set s. \<not> is_space c \<Longrightarrow> strip s = s"
proof -
  assume clean: "\<forall>c \<in> set s. \<not> is_space c"
  have keep: "dropWhile is_space xs = xs" if "\<forall>c \<in> set xs. \<not> is_space c" for xs
    using that by (cases xs) simp_all
  from clean have "dropWhile is_space s = s"
    by (rule keep)
  moreover from clean have "dropWhile is_space (rev s) = rev s"
    by (intro keep) simp
  ultimately show ?thesis
    by (simp add: strip_def)
qed

lemma int_of_str_decimal: "int_of_str (decimal n) = Inr (int n)"
proof -
  from decimal_digits [of n] obtain c cs where shape: "decimal n = c # cs"
    by (cases "decimal n") auto
  from decimal_digits [of n] have clean: "\<forall>c \<in> set (decimal n). \<not> is_space c"
    using digit_not_special by blast
  from decimal_digits [of n] shape obtain d where "digit_value c = Some d"
    by auto
  then have sign: "c \<noteq> CHR ''-''" "c \<noteq> CHR ''+''"
    using digit_not_special by blast+
  from decimal_digits [of n] have ok: "digits_ok (decimal n)"
    by (intro digits_ok_all) simp_all
  from clean have "strip (decimal n) = c # cs"
    using shape by (simp add: strip_no_space)
  with sign ok shape digits_num_decimal [of n] show ?thesis
    by (simp add: int_of_str_def)
qed

lemma split_part: "sep \<notin> set p \<Longrightarrow> split (p @ sep # rest) sep = p # split rest sep"
  by (induction p) (auto simp add: Let_def)

lemma split_join:
  "parts \<noteq> [] \<Longrightarrow> \<forall>p \<in> set parts. sep \<notin> set p \<Longrightarrow> split (join [sep] parts) sep = parts"
proof (induction "[sep]" parts rule: join.induct)
  case 1
  then show ?case by simp
next
  case (2 x)
  then show ?case by (simp add: split_no_sep)
next
  case (3 x y zs)
  then show ?case by (simp add: split_part)
qed

lemma replace_from_part:
  "CHR ''-'' \<notin> set p \<Longrightarrow>
     replace_from ''--'' ''-'' (p @ rest) = p @ replace_from ''--'' ''-'' rest"
  by (induction p) (auto simp add: startswith_def)

lemma replace_from_join:
  "\<forall>p \<in> set parts. p \<noteq> [] \<and> CHR ''-'' \<notin> set p \<Longrightarrow>
     replace_from ''--'' ''-'' (join ''-'' parts) = join ''-'' parts"
proof (induction "''-''" parts rule: join.induct)
  case 1
  then show ?case by simp
next
  case (2 x)
  then show ?case
    using replace_from_part [of x "[]"] by simp
next
  case (3 x y zs)
  then obtain c cs where y: "y = c # cs" and c: "c \<noteq> CHR ''-''"
    by (cases y) auto
  then obtain tail where tail: "join ''-'' (y # zs) = c # tail"
    by (cases zs) simp_all
  from 3 have ih: "replace_from ''--'' ''-'' (join ''-'' (y # zs)) = join ''-'' (y # zs)"
    by simp
  have "replace_from ''--'' ''-'' (CHR ''-'' # c # tail)
      = CHR ''-'' # replace_from ''--'' ''-'' (c # tail)"
    using c by (simp add: startswith_def)
  with ih tail have "replace_from ''--'' ''-'' (''-'' @ join ''-'' (y # zs))
      = ''-'' @ join ''-'' (y # zs)"
    by simp
  moreover from 3 have "CHR ''-'' \<notin> set x"
    by simp
  ultimately show ?case
    using replace_from_part [of x "''-'' @ join ''-'' (y # zs)"] by simp
qed

lemma decimal_no_dash: "decimal n \<noteq> [] \<and> CHR ''-'' \<notin> set (decimal n)"
proof -
  have "c \<noteq> CHR ''-''" if "c \<in> set (decimal n)" for c
  proof -
    from that decimal_digits [of n] obtain d where "digit_value c = Some d"
      by blast
    then show ?thesis
      using digit_not_special by blast
  qed
  with decimal_digits [of n] show ?thesis
    by blast
qed

lemma part_as_int_numbers:
  assumes "k < length ns"
  shows "part_as_int (join ''-'' (map decimal ns)) k = Inr (int (ns ! k))"
proof -
  let ?parts = "map decimal ns"
  have clean: "\<forall>p \<in> set ?parts. p \<noteq> [] \<and> CHR ''-'' \<notin> set p"
    using decimal_no_dash by auto
  then have "replace_from ''--'' ''-'' (join ''-'' ?parts) = join ''-'' ?parts"
    by (rule replace_from_join)
  then have same: "replace (join ''-'' ?parts) ''--'' ''-'' = join ''-'' ?parts"
    by (simp add: replace_def)
  from assms have "?parts \<noteq> []"
    by auto
  moreover from clean have "\<forall>p \<in> set ?parts. CHR ''-'' \<notin> set p"
    by blast
  ultimately have "split (join [CHR ''-''] ?parts) CHR ''-'' = ?parts"
    by (rule split_join)
  with same have "normalized_parts (join ''-'' ?parts) = ?parts"
    by (simp add: normalized_parts_def)
  with assms show ?thesis
    by (simp add: part_as_int_def int_of_str_decimal)
qed

section \<open>Composite fields\<close>

text \<open>
  Claim C1. Every composite accessor of the NCAAF Boxscore normalizes the double
  dashes of the raw string it reads, splits it on the dash and returns the integer
  at its fixed position. On the pass string 10-20-150-2-1 the pass completions are
  10 and the interceptions are 1, and 5--3 gives the same parts as 5-3. On a string
  of decimal numerals joined by dashes the accessor returns the number at its
  position.
\<close>

theorem composite_accessors_read_fixed_position:
  "(\<forall>(acc, attr, k) \<in> set ncaaf_composite_accessors.
      \<forall>self s. self attr = Some (PStr s) \<longrightarrow> acc self = part_as_int s k) \<and>
   (\<forall>self. self ''_away_pass_completions'' = Some (PStr ''10-20-150-2-1'') \<longrightarrow>
      ncaaf_away_pass_completions self = Inr 10) \<and>
   (\<forall>self. self ''_away_interceptions'' = Some (PStr ''10-20-150-2-1'') \<longrightarrow>
      ncaaf_away_interceptions self = Inr 1) \<and>
   replace ''5--3'' ''--'' ''-'' = ''5-3'' \<and>
   normalized_parts ''5--3'' = normalized_parts ''5-3'' \<and>
   normalized_parts ''5--3'' = [''5'', ''3''] \<and>
   (\<forall>(acc, attr, k) \<in> set ncaaf_composite_accessors.
      \<forall>self ns. self attr = Some (PStr (join ''-'' (map decimal ns))) \<and> k < length ns \<longrightarrow>
        acc self = Inr (int (ns ! k)))"
proof -
  note table = composite_table
  have numbers: "\<forall>(acc, attr, k) \<in> set ncaaf_composite_accessors.
      \<forall>self ns. self attr = Some (PStr (join ''-'' (map decimal ns))) \<and> k < length ns \<longrightarrow>
        acc self = Inr (int (ns ! k))"
  proof clarify
    fix acc attr k self ns
    assume "(acc, attr, k) \<in> set ncaaf_composite_accessors"
      and "self attr = Some (PStr (join ''-'' (map decimal ns)))"
      and k: "k < length ns"
    with composite_table have "acc self = part_as_int (join ''-'' (map decimal ns)) k"
      by blast
    with k show "acc self = Inr (int (ns ! k))"
      by (simp add: part_as_int_numbers)
  qed
  have first: "part_as_int ''10-20-150-2-1'' 0 = Inr 10"
    by code_simp
  have last: "part_as_int ''10-20-150-2-1'' 4 = Inr 1"
    by code_simp
  have completions: "ncaaf_away_pass_completions self = Inr 10"
    if "self ''_away_pass_completions'' = Some (PStr ''10-20-150-2-1'')" for self
    using that first by (simp add: ncaaf_away_pass_completions_def composite_part)
  have interceptions: "ncaaf_away_interceptions self = Inr 1"
    if "self ''_away_interceptions'' = Some (PStr ''10-20-150-2-1'')" for self
    using that last by (simp add: ncaaf_away_interceptions_def composite_part)
  have dashes: "replace ''5--3'' ''--'' ''-'' = ''5-3''"
    by code_simp
  have parts: "normalized_parts ''5--3'' = [''5'', ''3'']"
    by code_simp
  have parts': "normalized_parts ''5-3'' = [''5'', ''3'']"
    by code_simp
  from table completions interceptions dashes parts parts' numbers show ?thesis
    by simp
qed

theorem composite_accessors_read_fixed_position_witness:
  "ncaaf_home_rush_yards
     ((ncaaf_new ''2018-01-08-georgia'')(''_home_rush_yards'' \<mapsto> PStr ''35--184--2''))
   = Inr 184 \<and>
   ncaaf_away_pass_yards
     ((ncaaf_new ''2018-01-08-georgia'')(''_away_pass_yards'' \<mapsto> PStr ''10-20-150-2-1''))
   = Inr 150"
proof -
  let ?self = "(ncaaf_new ''2018-01-08-georgia'')(''_home_rush_yards'' \<mapsto> PStr ''35--184--2'')"
  have entry: "(ncaaf_home_rush_yards, ''_home_rush_yards'', 1) \<in> set ncaaf_composite_accessors"
    by (simp add: ncaaf_composite_accessors_def)
  have raw: "?self ''_home_rush_yards'' = Some (PStr ''35--184--2'')"
    by simp
  have val: "part_as_int ''35--184--2'' 1 = Inr 184"
    by code_simp
  from composite_accessors_read_fixed_position entry raw
  have "ncaaf_home_rush_yards ?self = part_as_int ''35--184--2'' 1"
    by blast
  with val have 1: "ncaaf_home_rush_yards ?self = Inr 184"
    by simp
  let ?pass = "(ncaaf_new ''2018-01-08-georgia'')(''_away_pass_yards'' \<mapsto> PStr ''10-20-150-2-1'')"
  have pass_entry: "(ncaaf_away_pass_yards, ''_away_pass_yards'', 2)
      \<in> set ncaaf_composite_accessors"
    by (simp add: ncaaf_composite_accessors_def)
  have numerals: "join ''-'' (map decimal [10, 20, 150, 2, 1]) = ''10-20-150-2-1''"
    by code_simp
  then have pass_raw:
    "?pass ''_away_pass_yards'' = Some (PStr (join ''-'' (map decimal [10, 20, 150, 2, 1])))"
    by simp
  have position: "(2::nat) < length [10, 20, 150, 2, 1::nat]"
    by simp
  from composite_accessors_read_fixed_position pass_entry pass_raw position
  have "ncaaf_away_pass_yards ?pass = Inr (int ([10, 20, 150, 2, 1] ! 2))"
    by blast
  then have 2: "ncaaf_away_pass_yards ?pass = Inr 150"
    by simp
  from 1 2 show ?thesis
    by simp
qed

text \<open>
  Claim C5, as the code has it. A composite accessor whose raw string has fewer
  parts than its position needs raises IndexError, the error of the list
  subscript, and the accessor has no handler: the error is its result.
\<close>

theorem short_composite_raises_IndexError:
  "\<forall>(acc, attr, k) \<in> set ncaaf_composite_accessors.
     \<forall>self s. self attr = Some (PStr s) \<and> length (normalized_parts s) \<le> k \<longrightarrow>
       acc self = Inl IndexError"
proof clarify
  fix acc attr k self s
  assume "(acc, attr, k) \<in> set ncaaf_composite_accessors"
    and raw: "self attr = Some (PStr s)"
    and short: "length (normalized_parts s) \<le> k"
  with composite_table have "acc self = part_as_int s k"
    by blast
  with short show "acc self = Inl IndexError"
    by (simp add: part_as_int_def)
qed

theorem short_composite_raises_IndexError_witness:
  "ncaaf_away_yards_from_penalties
     ((ncaaf_new ''2018-01-08-georgia'')(''_away_yards_from_penalties'' \<mapsto> PStr ''7''))
   = Inl IndexError"
proof -
  let ?self = "(ncaaf_new ''2018-01-08-georgia'')(''_away_yards_from_penalties'' \<mapsto> PStr ''7'')"
  have entry: "(ncaaf_away_yards_from_penalties, ''_away_yards_from_penalties'', 1)
      \<in> set ncaaf_composite_accessors"
    by (simp add: ncaaf_composite_accessors_def)
  have raw: "?self ''_away_yards_from_penalties'' = Some (PStr ''7'')"
    by simp
  have parts: "length (normalized_parts ''7'') \<le> 1"
    by code_simp
  from short_composite_raises_IndexError entry raw parts show ?thesis
    by blast
qed

text \<open>
  The claim as the specification words it fails: on the string 10-20 the
  interceptions accessor (position 4) raises IndexError, which is neither of
  Python's conversion errors.
\<close>

theorem short_composite_not_conversion_error:
  "ncaaf_away_interceptions
     ((ncaaf_new ''2018-01-08-georgia'')(''_away_interceptions'' \<mapsto> PStr ''10-20''))
     = Inl IndexError \<and>
   ncaaf_away_interceptions
     ((ncaaf_new ''2018-01-08-georgia'')(''_away_interceptions'' \<mapsto> PStr ''10-20''))
     \<noteq> Inl ValueError \<and>
   ncaaf_away_interceptions
     ((ncaaf_new ''2018-01-08-georgia'')(''_away_interceptions'' \<mapsto> PStr ''10-20''))
     \<noteq> Inl TypeError"
proof -
  let ?self = "(ncaaf_new ''2018-01-08-georgia'')(''_away_interceptions'' \<mapsto> PStr ''10-20'')"
  have raw: "?self ''_away_interceptions'' = Some (PStr ''10-20'')"
    by simp
  have val: "part_as_int ''10-20'' 4 = Inl IndexError"
    by code_simp
  from raw val have "ncaaf_away_interceptions ?self = Inl IndexError"
    by (simp add: ncaaf_away_interceptions_def composite_part)
  then show ?thesis
    by simp
qed

text \<open>
  Claim C10. The home interceptions accessor reads the raw attribute of the home
  passing touchdowns: it returns position 4 of that string, and two instances that
  agree on it get the same result, whatever their own interceptions attribute
  holds.
\<close>

theorem home_interceptions_reads_pass_touchdowns:
  "(self ''_home_pass_touchdowns'' = self' ''_home_pass_touchdowns'' \<longrightarrow>
      ncaaf_home_interceptions self = ncaaf_home_interceptions self') \<and>
   (self ''_home_pass_touchdowns'' = Some (PStr s) \<longrightarrow>
      ncaaf_home_interceptions self = part_as_int s 4)"
  by (simp add: ncaaf_home_interceptions_def composite_part)
    (simp add: composite_def getattr_def)

theorem home_interceptions_reads_pass_touchdowns_witness:
  "ncaaf_home_interceptions
     ((ncaaf_new ''2018-01-08-georgia'')
        (''_home_pass_touchdowns'' \<mapsto> PStr ''10-20-150-2-1'',
         ''_home_interceptions'' \<mapsto> PStr ''0-0-0-0-7'')) = Inr 1 \<and>
   ncaaf_home_interceptions
     ((ncaaf_new ''2018-01-08-georgia'')
        (''_home_pass_touchdowns'' \<mapsto> PStr ''10-20-150-2-1'',
         ''_home_interceptions'' \<mapsto> PNone)) = Inr 1"
proof -
  let ?a = "(ncaaf_new ''2018-01-08-georgia'')
        (''_home_pass_touchdowns'' \<mapsto> PStr ''10-20-150-2-1'',
         ''_home_interceptions'' \<mapsto> PStr ''0-0-0-0-7'')"
  let ?b = "(ncaaf_new ''2018-01-08-georgia'')
        (''_home_pass_touchdowns'' \<mapsto> PStr ''10-20-150-2-1'',
         ''_home_interceptions'' \<mapsto> PNone)"
  have a: "?a ''_home_pass_touchdowns'' = Some (PStr ''10-20-150-2-1'')"
    by simp
  have b: "?b ''_home_pass_touchdowns'' = Some (PStr ''10-20-150-2-1'')"
    by simp
  have val: "part_as_int ''10-20-150-2-1'' 4 = Inr 1"
    by code_simp
  have same: "ncaaf_home_interceptions ?a = ncaaf_home_interceptions ?b"
    using home_interceptions_reads_pass_touchdowns [of ?a ?b] a b by simp
  have "ncaaf_home_interceptions ?a = part_as_int ''10-20-150-2-1'' 4"
    using home_interceptions_reads_pass_touchdowns [of ?a ?a "''10-20-150-2-1''"] a by simp
  with same val show ?thesis
    by simp
qed

section \<open>Instances without a page\<close>

lemma map_of_const:
  "x \<in> set xs \<Longrightarrow> map_of (map (\<lambda>name. (name, c)) xs) x = Some c"
  by (induction xs) auto

lemma uri_not_mlb_field: "''_uri'' \<notin> set mlb_fields"
  by code_simp

lemma uri_not_ncaaf_field: "''_uri'' \<notin> set ncaaf_fields"
  by code_simp

lemma mlb_new_field: "name \<in> set mlb_fields \<Longrightarrow> mlb_new uri name = Some PNone"
  using uri_not_mlb_field by (auto simp add: mlb_new_def map_of_const)

lemma ncaaf_new_field: "name \<in> set ncaaf_fields \<Longrightarrow> ncaaf_new uri name = Some PNone"
  using uri_not_ncaaf_field by (auto simp add: ncaaf_new_def map_of_const)

lemma mlb_statistics_are_fields:
  "\<forall>(name, k) \<in> set mlb_statistics. CHR ''_'' # name \<in> set mlb_fields"
  by code_simp

lemma ncaaf_composite_attrs_are_fields:
  "\<forall>(acc, attr, k) \<in> set ncaaf_composite_accessors. attr \<in> set ncaaf_fields"
  unfolding ncaaf_composite_accessors_def ncaaf_fields_def by simp

lemma mlb_retrieve_failed:
  "pq site (BOXSCORE_URL site uri) = Inl e \<Longrightarrow> mlb_retrieve_html_page site uri = Inr None"
  by (simp add: mlb_retrieve_html_page_def)

lemma ncaaf_retrieve_failed:
  "pq site (BOXSCORE_URL site uri) = Inl e \<Longrightarrow> ncaaf_retrieve_html_page site uri = Inr None"
  by (simp add: ncaaf_retrieve_html_page_def)

lemma mlb_Boxscore_failed:
  "pq site (BOXSCORE_URL site uri) = Inl e \<Longrightarrow> mlb_Boxscore site uri = Inr (mlb_new uri)"
  by (simp add: mlb_Boxscore_def mlb_parse_game_data_def mlb_retrieve_failed)

lemma ncaaf_Boxscore_failed:
  "pq site (BOXSCORE_URL site uri) = Inl e \<Longrightarrow> ncaaf_Boxscore site uri = Inr (ncaaf_new uri)"
  by (simp add: ncaaf_Boxscore_def ncaaf_parse_game_data_def ncaaf_retrieve_failed)

lemma mlb_new_raw:
  "mlb_new uri ''_date'' = Some PNone"
  "mlb_new uri ''_time'' = Some PNone"
  "mlb_new uri ''_venue'' = Some PNone"
  "mlb_new uri ''_attendance'' = Some PNone"
  "mlb_new uri ''_duration'' = Some PNone"
  "mlb_new uri ''_time_of_day'' = Some PNone"
  "mlb_new uri ''_away_runs'' = Some PNone"
  "mlb_new uri ''_home_runs'' = Some PNone"
  by (rule mlb_new_field, simp add: mlb_fields_def)+

lemma ncaaf_new_raw:
  "ncaaf_new uri ''_date'' = Some PNone"
  "ncaaf_new uri ''_time'' = Some PNone"
  "ncaaf_new uri ''_stadium'' = Some PNone"
  "ncaaf_new uri ''_away_points'' = Some PNone"
  "ncaaf_new uri ''_home_points'' = Some PNone"
  by (rule ncaaf_new_field, simp add: ncaaf_fields_def)+

lemma mlb_winner_new: "mlb_winner (mlb_new uri) = Inl TypeError"
  by (simp add: mlb_winner_def mlb_home_runs_def mlb_new_raw py_int_def)

lemma mlb_dataframe_unset:
  "self ''_away_runs'' = Some PNone \<Longrightarrow> self ''_home_runs'' = Some PNone \<Longrightarrow>
     mlb_dataframe site self = Inr None"
  by (simp add: mlb_dataframe_def)

lemma ncaaf_dataframe_unset:
  "self ''_away_points'' = Some PNone \<Longrightarrow> self ''_home_points'' = Some PNone \<Longrightarrow>
     ncaaf_dataframe site self = Inr None"
  by (simp add: ncaaf_dataframe_def)

lemma collect_keys: "collect fs self = Inr row \<Longrightarrow> map fst row = map fst fs"
proof (induction fs arbitrary: row)
  case Nil
  then show ?case by simp
next
  case (Cons f fs)
  obtain key property where f: "f = (key, property)"
    by (cases f)
  from Cons.prems f obtain v tail where "collect fs self = Inr tail" and "row = (key, v) # tail"
    by (auto simp add: bind_def split: sum.splits)
  with Cons.IH f show ?case
    by simp
qed

section \<open>Winner and tabular export\<close>

text \<open>
  Claim C2. In both modules the winner accessor compares the two scores, home
  first: it returns HOME exactly when the home score is strictly greater, and AWAY
  otherwise, a tie included.
\<close>

theorem winner_home_iff_strictly_greater:
  "(ncaaf_home_points self = Inr h \<and> ncaaf_away_points self = Inr a \<longrightarrow>
      ncaaf_winner self = Inr (if a < h then HOME else AWAY)) \<and>
   (mlb_home_runs self = Inr h \<and> mlb_away_runs self = Inr a \<longrightarrow>
      mlb_winner self = Inr (if a < h then HOME else AWAY))"
  by (simp add: ncaaf_winner_def mlb_winner_def)

theorem winner_home_iff_strictly_greater_witness:
  "ncaaf_winner ((ncaaf_new ''2018-01-08-georgia'')
      (''_home_points'' \<mapsto> PStr ''75'', ''_away_points'' \<mapsto> PStr ''70'')) = Inr HOME \<and>
   ncaaf_winner ((ncaaf_new ''2018-01-08-georgia'')
      (''_home_points'' \<mapsto> PStr ''70'', ''_away_points'' \<mapsto> PStr ''75'')) = Inr AWAY \<and>
   mlb_winner ((mlb_new ''BOS/BOS201806070'')
      (''_home_runs'' \<mapsto> PStr ''3'', ''_away_runs'' \<mapsto> PStr ''3'')) = Inr AWAY"
proof -
  let ?won = "(ncaaf_new ''2018-01-08-georgia'')
      (''_home_points'' \<mapsto> PStr ''75'', ''_away_points'' \<mapsto> PStr ''70'')"
  let ?lost = "(ncaaf_new ''2018-01-08-georgia'')
      (''_home_points'' \<mapsto> PStr ''70'', ''_away_points'' \<mapsto> PStr ''75'')"
  let ?tie = "(mlb_new ''BOS/BOS201806070'')
      (''_home_runs'' \<mapsto> PStr ''3'', ''_away_runs'' \<mapsto> PStr ''3'')"
  have n75: "int_of_str ''75'' = Inr 75" and n70: "int_of_str ''70'' = Inr 70"
    and n3: "int_of_str ''3'' = Inr 3"
    by code_simp+
  have won: "ncaaf_home_points ?won = Inr 75 \<and> ncaaf_away_points ?won = Inr 70"
    by (simp add: ncaaf_home_points_def ncaaf_away_points_def py_int_def n75 n70)
  have lost: "ncaaf_home_points ?lost = Inr 70 \<and> ncaaf_away_points ?lost = Inr 75"
    by (simp add: ncaaf_home_points_def ncaaf_away_points_def py_int_def n75 n70)
  have tie: "mlb_home_runs ?tie = Inr 3 \<and> mlb_away_runs ?tie = Inr 3"
    by (simp add: mlb_home_runs_def mlb_away_runs_def py_int_def n3)
  from winner_home_iff_strictly_greater [of ?won 75 70] won
  have 1: "ncaaf_winner ?won = Inr HOME"
    by simp
  from winner_home_iff_strictly_greater [of ?lost 70 75] lost
  have 2: "ncaaf_winner ?lost = Inr AWAY"
    by simp
  from winner_home_iff_strictly_greater [of ?tie 3 3] tie
  have 3: "mlb_winner ?tie = Inr AWAY"
    by simp
  from 1 2 3 show ?thesis
    by simp
qed

text \<open>
  Claim C7. In both modules, when the two raw score attributes are None the
  dataframe property returns None. A frame that is returned has every column of
  \<^verbatim>\<open>fields_to_include\<close>: no record is partially filled.
\<close>

theorem dataframe_absent_when_scores_unset:
  "(self ''_away_points'' = Some PNone \<and> self ''_home_points'' = Some PNone \<longrightarrow>
      ncaaf_dataframe site self = Inr None) \<and>
   (self ''_away_runs'' = Some PNone \<and> self ''_home_runs'' = Some PNone \<longrightarrow>
      mlb_dataframe site self = Inr None) \<and>
   (ncaaf_dataframe site self = Inr (Some (uri, row)) \<longrightarrow>
      map fst row = map fst (ncaaf_fields_to_include site)) \<and>
   (mlb_dataframe site self = Inr (Some (uri, row)) \<longrightarrow> map fst row = mlb_columns)"
proof -
  have "map fst row = map fst (ncaaf_fields_to_include site)"
    if "ncaaf_dataframe site self = Inr (Some (uri, row))"
  proof -
    from that have "collect (ncaaf_fields_to_include site) self = Inr row"
      by (auto simp add: ncaaf_dataframe_def bind_def split: sum.splits if_splits)
    then show ?thesis
      by (rule collect_keys)
  qed
  moreover have "map fst row = mlb_columns"
    if "mlb_dataframe site self = Inr (Some (uri, row))"
  proof -
    from that have "collect (mlb_fields_to_include site) self = Inr row"
      by (auto simp add: mlb_dataframe_def bind_def split: sum.splits if_splits)
    then have "map fst row = map fst (mlb_fields_to_include site)"
      by (rule collect_keys)
    then show ?thesis
      by (simp add: mlb_fields_to_include_def comp_def)
  qed
  ultimately show ?thesis
    by (simp add: ncaaf_dataframe_unset mlb_dataframe_unset)
qed

theorem dataframe_absent_when_scores_unset_witness:
  "ncaaf_dataframe offline (ncaaf_new ''2018-01-08-georgia'') = Inr None \<and>
   mlb_dataframe offline (mlb_new ''BOS/BOS201806070'') = Inr None"
proof -
  have 1: "ncaaf_dataframe offline (ncaaf_new ''2018-01-08-georgia'') = Inr None"
    using dataframe_absent_when_scores_unset
      [of "ncaaf_new ''2018-01-08-georgia''" offline]
    by (simp add: ncaaf_new_raw)
  have 2: "mlb_dataframe offline (mlb_new ''BOS/BOS201806070'') = Inr None"
    using dataframe_absent_when_scores_unset
      [of "mlb_new ''BOS/BOS201806070''" offline]
    by (simp add: mlb_new_raw)
  from 1 2 show ?thesis
    by simp
qed

section \<open>Page fetches\<close>

text \<open>
  Claim C8, as the code has it. A failed download of the detail page is caught by
  \<^verbatim>\<open>Boxscore._retrieve_html_page\<close>, which returns None, and the instance stays as
  \<^verbatim>\<open>__init__\<close> made it. \<^verbatim>\<open>Boxscores._get_requested_page\<close> has no handler: a
  failed download of the index page is raised by the constructor.
\<close>

theorem fetch_failure_caught_only_for_detail_page:
  "(pq site (BOXSCORE_URL site uri) = Inl e \<longrightarrow>
      mlb_retrieve_html_page site uri = Inr None \<and>
      mlb_Boxscore site uri = Inr (mlb_new uri) \<and>
      ncaaf_retrieve_html_page site uri = Inr None \<and>
      ncaaf_Boxscore site uri = Inr (ncaaf_new uri)) \<and>
   (pq site (mlb_create_url site date) = Inl e \<longrightarrow>
      mlb_get_requested_page site (mlb_create_url site date) = Inl e \<and>
      mlb_Boxscores site date = Inl e) \<and>
   (pq site (ncaaf_create_url site date) = Inl e \<longrightarrow>
      ncaaf_get_requested_page site (ncaaf_create_url site date) = Inl e \<and>
      ncaaf_Boxscores site date = Inl e)"
  by (simp add: mlb_retrieve_failed mlb_Boxscore_failed ncaaf_retrieve_failed
      ncaaf_Boxscore_failed mlb_get_requested_page_def mlb_Boxscores_def mlb_find_games_def
      ncaaf_get_requested_page_def ncaaf_Boxscores_def ncaaf_find_games_def)

theorem fetch_failure_caught_only_for_detail_page_witness:
  "mlb_Boxscore offline ''BOS/BOS201806070'' = Inr (mlb_new ''BOS/BOS201806070'') \<and>
   ncaaf_Boxscore offline ''2018-01-08-georgia'' = Inr (ncaaf_new ''2018-01-08-georgia'') \<and>
   ncaaf_Boxscores offline \<lparr>year = 2017, month = 9, day = 9\<rparr> = Inl HTTPError"
proof -
  have down: "pq offline url = Inl HTTPError" for url
    by (simp add: offline_def)
  from fetch_failure_caught_only_for_detail_page
    [of offline "''BOS/BOS201806070''" HTTPError "\<lparr>year = 2017, month = 9, day = 9\<rparr>"] down
  have 1: "mlb_Boxscore offline ''BOS/BOS201806070'' = Inr (mlb_new ''BOS/BOS201806070'')"
    by simp
  from fetch_failure_caught_only_for_detail_page
    [of offline "''2018-01-08-georgia''" HTTPError "\<lparr>year = 2017, month = 9, day = 9\<rparr>"] down
  have 2: "ncaaf_Boxscore offline ''2018-01-08-georgia'' = Inr (ncaaf_new ''2018-01-08-georgia'')"
    and 3: "ncaaf_Boxscores offline \<lparr>year = 2017, month = 9, day = 9\<rparr> = Inl HTTPError"
    by simp_all
  from 1 2 3 show ?thesis
    by simp
qed

text \<open>
  The claim as the specification words it fails for the game-day finder: with the
  network down, constructing the MLB Boxscores raises the download's error.
\<close>

theorem index_fetch_failure_is_raised:
  "mlb_Boxscores offline \<lparr>year = 2018, month = 7, day = 28\<rparr> = Inl HTTPError"
  by (simp add: mlb_Boxscores_def mlb_find_games_def mlb_get_requested_page_def offline_def)

lemma composite_None: "self attr = Some PNone \<Longrightarrow> composite self attr pos = Inl AttributeError"
  by (simp add: composite_def py_replace_def)

lemma ncaaf_composite_new:
  "\<forall>(acc, attr, k) \<in> set ncaaf_composite_accessors. acc (ncaaf_new uri) = Inl AttributeError"
proof clarify
  fix acc attr k
  assume entry: "(acc, attr, k) \<in> set ncaaf_composite_accessors"
  with ncaaf_composite_attrs_are_fields have "attr \<in> set ncaaf_fields"
    by blast
  then have "ncaaf_new uri attr = Some PNone"
    by (rule ncaaf_new_field)
  then have "composite (ncaaf_new uri) attr pos = Inl AttributeError" for pos
    by (rule composite_None)
  moreover from entry have "acc (ncaaf_new uri) = composite (ncaaf_new uri) attr (int k)"
    unfolding ncaaf_composite_accessors_def by (auto simp add: ncaaf_composite_defs)
  ultimately show "acc (ncaaf_new uri) = Inl AttributeError"
    by simp
qed

lemma ncaaf_new_numbers:
  "ncaaf_new uri ''_away_first_downs'' = Some PNone"
  "ncaaf_new uri ''_away_total_yards'' = Some PNone"
  "ncaaf_new uri ''_away_turnovers'' = Some PNone"
  "ncaaf_new uri ''_home_first_downs'' = Some PNone"
  "ncaaf_new uri ''_home_total_yards'' = Some PNone"
  "ncaaf_new uri ''_home_turnovers'' = Some PNone"
  by (rule ncaaf_new_field, simp add: ncaaf_fields_def)+

lemma ncaaf_winner_new: "ncaaf_winner (ncaaf_new uri) = Inl TypeError"
  by (simp add: ncaaf_winner_def ncaaf_home_points_def ncaaf_new_raw py_int_def)

lemma mlb_statistics_new:
  "\<forall>(name, k) \<in> set mlb_statistics.
     mlb_statistic site k name (mlb_new uri) = Inl TypeError \<and>
     mlb_property site name (mlb_new uri) = Inl TypeError"
proof -
  have stat: "mlb_statistic site k name (mlb_new uri) = Inl TypeError"
    if "(name, k) \<in> set mlb_statistics" for name k
  proof -
    from that mlb_statistics_are_fields have "CHR ''_'' # name \<in> set mlb_fields"
      by blast
    then have "mlb_new uri (CHR ''_'' # name) = Some PNone"
      by (rule mlb_new_field)
    then show ?thesis
      by (cases k) (simp_all add: mlb_statistic_def py_int_def float_of_raw_def
          except_ValueError_def)
  qed
  have as_property:
    "mlb_property site name (mlb_new uri) = mlb_statistic site k name (mlb_new uri)"
    if "(name, k) \<in> set mlb_statistics" for name k
  proof -
    have "distinct (map fst mlb_statistics)"
      by code_simp
    with that have look: "map_of mlb_statistics name = Some k"
      by simp
    have "\<forall>(name, k) \<in> set mlb_statistics.
        name \<notin> set [''date'', ''time'', ''venue'', ''attendance'', ''duration'',
          ''time_of_day'', ''winner'', ''winning_name'', ''winning_abbr'', ''losing_name'',
          ''losing_abbr'']"
      by code_simp
    with that have "name \<notin> set [''date'', ''time'', ''venue'', ''attendance'', ''duration'',
          ''time_of_day'', ''winner'', ''winning_name'', ''winning_abbr'', ''losing_name'',
          ''losing_abbr'']"
      by blast
    with look show ?thesis
      by (simp add: mlb_property_def)
  qed
  from stat as_property show ?thesis
    by auto
qed

lemma mlb_new_accessors:
  "mlb_dataframe site (mlb_new uri) = Inr None"
  "mlb_date (mlb_new uri) = Inr PNone"
  "mlb_time (mlb_new uri) = Inl AttributeError"
  "mlb_venue (mlb_new uri) = Inl AttributeError"
  "mlb_attendance (mlb_new uri) = Inl AttributeError"
  "mlb_duration (mlb_new uri) = Inl AttributeError"
  "mlb_time_of_day (mlb_new uri) = Inl AttributeError"
  "mlb_winner (mlb_new uri) = Inl TypeError"
  "mlb_winning_name (mlb_new uri) = Inl TypeError"
  "mlb_winning_abbr site (mlb_new uri) = Inl TypeError"
  "mlb_losing_name (mlb_new uri) = Inl TypeError"
  "mlb_losing_abbr site (mlb_new uri) = Inl TypeError"
  by (simp_all add: mlb_dataframe_unset mlb_date_def mlb_time_def mlb_venue_def
      mlb_attendance_def mlb_duration_def mlb_time_of_day_def mlb_new_raw py_replace_def
      py_lower_def mlb_winning_name_def mlb_winning_abbr_def mlb_losing_name_def
      mlb_losing_abbr_def mlb_winner_new)

lemma ncaaf_new_accessors:
  "ncaaf_dataframe site (ncaaf_new uri) = Inr None"
  "ncaaf_date (ncaaf_new uri) = Inr PNone"
  "ncaaf_time (ncaaf_new uri) = Inl AttributeError"
  "ncaaf_stadium (ncaaf_new uri) = Inl AttributeError"
  "ncaaf_away_points (ncaaf_new uri) = Inl TypeError"
  "ncaaf_away_first_downs (ncaaf_new uri) = Inl TypeError"
  "ncaaf_away_total_yards (ncaaf_new uri) = Inl TypeError"
  "ncaaf_away_turnovers (ncaaf_new uri) = Inl TypeError"
  "ncaaf_home_points (ncaaf_new uri) = Inl TypeError"
  "ncaaf_home_first_downs (ncaaf_new uri) = Inl TypeError"
  "ncaaf_home_total_yards (ncaaf_new uri) = Inl TypeError"
  "ncaaf_home_turnovers (ncaaf_new uri) = Inl TypeError"
  "ncaaf_winner (ncaaf_new uri) = Inl TypeError"
  "ncaaf_winning_name (ncaaf_new uri) = Inl TypeError"
  "ncaaf_winning_abbr site (ncaaf_new uri) = Inl TypeError"
  "ncaaf_losing_name (ncaaf_new uri) = Inl TypeError"
  "ncaaf_losing_abbr site (ncaaf_new uri) = Inl TypeError"
  by (simp_all add: ncaaf_dataframe_unset ncaaf_date_def ncaaf_time_def ncaaf_stadium_def
      ncaaf_away_points_def ncaaf_away_first_downs_def ncaaf_away_total_yards_def
      ncaaf_away_turnovers_def ncaaf_home_points_def ncaaf_home_first_downs_def
      ncaaf_home_total_yards_def ncaaf_home_turnovers_def ncaaf_new_raw ncaaf_new_numbers
      py_replace_def py_int_def ncaaf_winning_name_def ncaaf_winning_abbr_def
      ncaaf_losing_name_def ncaaf_losing_abbr_def ncaaf_winner_new)

text \<open>
  Claim C9, as the code has it. When the download of the detail page fails, every
  raw attribute of the Boxscore stays None, in both modules. On that instance the
  dataframe and the date are None; the other accessors have no guard for None and
  raise: AttributeError where the body calls a string method (time, venue or
  stadium, attendance, duration, time of day, and every composite field),
  TypeError where it converts with int or float, directly or through the winner.
\<close>

theorem unavailable_page_accessors_raise:
  "(pq site (BOXSCORE_URL site uri) = Inl e \<longrightarrow>
      mlb_Boxscore site uri = Inr (mlb_new uri) \<and>
      ncaaf_Boxscore site uri = Inr (ncaaf_new uri)) \<and>
   (\<forall>name \<in> set mlb_fields. mlb_new uri name = Some PNone) \<and>
   (\<forall>name \<in> set ncaaf_fields. ncaaf_new uri name = Some PNone) \<and>
   mlb_dataframe site (mlb_new uri) = Inr None \<and>
   mlb_date (mlb_new uri) = Inr PNone \<and>
   mlb_time (mlb_new uri) = Inl AttributeError \<and>
   mlb_venue (mlb_new uri) = Inl AttributeError \<and>
   mlb_attendance (mlb_new uri) = Inl AttributeError \<and>
   mlb_duration (mlb_new uri) = Inl AttributeError \<and>
   mlb_time_of_day (mlb_new uri) = Inl AttributeError \<and>
   mlb_winner (mlb_new uri) = Inl TypeError \<and>
   mlb_winning_name (mlb_new uri) = Inl TypeError \<and>
   mlb_winning_abbr site (mlb_new uri) = Inl TypeError \<and>
   mlb_losing_name (mlb_new uri) = Inl TypeError \<and>
   mlb_losing_abbr site (mlb_new uri) = Inl TypeError \<and>
   (\<forall>(name, k) \<in> set mlb_statistics.
      mlb_statistic site k name (mlb_new uri) = Inl TypeError \<and>
      mlb_property site name (mlb_new uri) = Inl TypeError) \<and>
   ncaaf_dataframe site (ncaaf_new uri) = Inr None \<and>
   ncaaf_date (ncaaf_new uri) = Inr PNone \<and>
   ncaaf_time (ncaaf_new uri) = Inl AttributeError \<and>
   ncaaf_stadium (ncaaf_new uri) = Inl AttributeError \<and>
   (\<forall>(acc, attr, k) \<in> set ncaaf_composite_accessors.
      acc (ncaaf_new uri) = Inl AttributeError) \<and>
   ncaaf_away_points (ncaaf_new uri) = Inl TypeError \<and>
   ncaaf_away_first_downs (ncaaf_new uri) = Inl TypeError \<and>
   ncaaf_away_total_yards (ncaaf_new uri) = Inl TypeError \<and>
   ncaaf_away_turnovers (ncaaf_new uri) = Inl TypeError \<and>
   ncaaf_home_points (ncaaf_new uri) = Inl TypeError \<and>
   ncaaf_home_first_downs (ncaaf_new uri) = Inl TypeError \<and>
   ncaaf_home_total_yards (ncaaf_new uri) = Inl TypeError \<and>
   ncaaf_home_turnovers (ncaaf_new uri) = Inl TypeError \<and>
   ncaaf_winner (ncaaf_new uri) = Inl TypeError \<and>
   ncaaf_winning_name (ncaaf_new uri) = Inl TypeError \<and>
   ncaaf_winning_abbr site (ncaaf_new uri) = Inl TypeError \<and>
   ncaaf_losing_name (ncaaf_new uri) = Inl TypeError \<and>
   ncaaf_losing_abbr site (ncaaf_new uri) = Inl TypeError"
proof -
  have built: "pq site (BOXSCORE_URL site uri) = Inl e \<longrightarrow>
      mlb_Boxscore site uri = Inr (mlb_new uri) \<and>
      ncaaf_Boxscore site uri = Inr (ncaaf_new uri)"
    by (simp add: mlb_Boxscore_failed ncaaf_Boxscore_failed)
  have mlb_none: "\<forall>name \<in> set mlb_fields. mlb_new uri name = Some PNone"
    by (simp add: mlb_new_field)
  have ncaaf_none: "\<forall>name \<in> set ncaaf_fields. ncaaf_new uri name = Some PNone"
    by (simp add: ncaaf_new_field)
  note facts = built mlb_none ncaaf_none mlb_new_accessors mlb_statistics_new
    ncaaf_new_accessors ncaaf_composite_new
  show ?thesis
    by (intro conjI) (rule facts)+
qed

theorem unavailable_page_accessors_raise_witness:
  "mlb_Boxscore offline ''BOS/BOS201806070'' = Inr (mlb_new ''BOS/BOS201806070'') \<and>
   mlb_new ''BOS/BOS201806070'' ''_attendance'' = Some PNone \<and>
   mlb_property offline ''home_hits'' (mlb_new ''BOS/BOS201806070'') = Inl TypeError \<and>
   ncaaf_away_pass_yards (ncaaf_new ''BOS/BOS201806070'') = Inl AttributeError"
proof -
  have down: "pq offline (BOXSCORE_URL offline ''BOS/BOS201806070'') = Inl HTTPError"
    by (simp add: offline_def)
  have field: "''_attendance'' \<in> set mlb_fields"
    by (simp add: mlb_fields_def)
  have stat: "(''home_hits'', KInt) \<in> set mlb_statistics"
    by (simp add: mlb_statistics_def)
  have entry: "(ncaaf_away_pass_yards, ''_away_pass_yards'', 2) \<in> set ncaaf_composite_accessors"
    by (simp add: ncaaf_composite_accessors_def)
  note all = unavailable_page_accessors_raise [of offline "''BOS/BOS201806070''" HTTPError]
  from all down have 1: "mlb_Boxscore offline ''BOS/BOS201806070''
      = Inr (mlb_new ''BOS/BOS201806070'')"
    by blast
  from all field have 2: "mlb_new ''BOS/BOS201806070'' ''_attendance'' = Some PNone"
    by blast
  from all stat have 3: "mlb_property offline ''home_hits'' (mlb_new ''BOS/BOS201806070'')
      = Inl TypeError"
    by blast
  from all entry have 4: "ncaaf_away_pass_yards (ncaaf_new ''BOS/BOS201806070'')
      = Inl AttributeError"
    by blast
  from 1 2 3 4 show ?thesis
    by simp
qed

text \<open>
  The claim as the specification words it fails: with the network down the MLB
  Boxscore is built, and on it the time accessor does not return the empty string
  nor the attendance accessor zero; both raise AttributeError, and the home runs
  accessor raises TypeError.
\<close>

theorem unavailable_page_accessors_do_not_default:
  "mlb_Boxscore offline ''BOS/BOS201806070'' = Inr (mlb_new ''BOS/BOS201806070'') \<and>
   mlb_time (mlb_new ''BOS/BOS201806070'') = Inl AttributeError \<and>
   mlb_time (mlb_new ''BOS/BOS201806070'') \<noteq> Inr '''' \<and>
   mlb_attendance (mlb_new ''BOS/BOS201806070'') = Inl AttributeError \<and>
   mlb_attendance (mlb_new ''BOS/BOS201806070'') \<noteq> Inr 0 \<and>
   mlb_home_runs (mlb_new ''BOS/BOS201806070'') = Inl TypeError \<and>
   mlb_home_runs (mlb_new ''BOS/BOS201806070'') \<noteq> Inr 0"
proof -
  have down: "pq offline (BOXSCORE_URL offline ''BOS/BOS201806070'') = Inl HTTPError"
    by (simp add: offline_def)
  then have built: "mlb_Boxscore offline ''BOS/BOS201806070'' = Inr (mlb_new ''BOS/BOS201806070'')"
    by (rule mlb_Boxscore_failed)
  have "mlb_time (mlb_new ''BOS/BOS201806070'') = Inl AttributeError"
    and "mlb_attendance (mlb_new ''BOS/BOS201806070'') = Inl AttributeError"
    and "mlb_home_runs (mlb_new ''BOS/BOS201806070'') = Inl TypeError"
    by (simp_all add: mlb_time_def mlb_attendance_def mlb_home_runs_def mlb_new_raw
        py_replace_def py_int_def)
  with built show ?thesis
    by simp
qed

section \<open>Team names\<close>

lemma schools_not_inside:
  assumes "\<not> contains (''/'' @ t) ''/schools/''"
  shows "after_last (tl (''/schools/'' @ t)) ''/schools/'' = None"
proof -
  from assms have "\<not> contains (tl (''/schools/'' @ t)) ''/schools/''"
    by (simp add: startswith_def)
  then show ?thesis
    by (subst after_last_None_iff) simp_all
qed

lemma ncaaf_parse_abbreviation_link:
  assumes form: "tag_str name = pre @ ''/cfb/schools/'' @ code @ ''/'' @ rest"
    and line: "newline \<notin> set (tag_str name)"
    and code: "CHR ''/'' \<notin> set code"
    and last: "\<not> contains (''/'' @ code @ ''/'' @ rest) ''/schools/''"
  shows "ncaaf_parse_abbreviation name = Some code"
proof -
  have "tag_str name = (pre @ ''/'') @ ''cfb/schools'' @ (''/'' @ code @ ''/'' @ rest)"
    using form by simp
  then have present: "contains (tag_str name) ''cfb/schools''"
    unfolding contains_iff by blast
  have "tag_str name = (pre @ ''/cfb'') @ ''/schools/'' @ (code @ ''/'' @ rest)"
    using form by simp
  moreover have "after_last (tl (''/schools/'' @ (code @ ''/'' @ rest))) ''/schools/'' = None"
    using last by (rule schools_not_inside)
  ultimately have "after_last (tag_str name) ''/schools/'' = Some (code @ ''/'' @ rest)"
    using after_last_append [of "''/schools/''" "code @ ''/'' @ rest" "pre @ ''/cfb''"]
    by simp
  with line have upto: "re_sub_upto ''/schools/'' (tag_str name) = code @ ''/'' @ rest"
    by (simp add: re_sub_upto_line)
  from line form have "newline \<notin> set (code @ ''/'' @ rest)"
    by auto
  then have "re_sub_from ''/'' (code @ ''/'' @ rest) = before_first (code @ ''/'' @ rest) ''/''"
    by (rule re_sub_from_line)
  also have "\<dots> = code"
    using before_first_append [OF code, of rest] by simp
  finally show ?thesis
    using present upto by (simp add: ncaaf_parse_abbreviation_def)
qed

text \<open>
  Claim C6, as the code has it. A name tag without the segment
  \<^verbatim>\<open>cfb/schools\<close> gives a team flagged as outside Division I and abbreviated by
  its display name. With the segment, the abbreviation is what the two regular
  expressions leave, on a one-line tag \<^verbatim>\<open>.../cfb/schools/CODE/...\<close> the code
  between the last \<^verbatim>\<open>/schools/\<close> and the next slash, and the flag is false, as
  long as that code is not empty: \<^verbatim>\<open>not abbr\<close> treats an empty code like a
  missing link.
\<close>

theorem get_name_division_flag:
  "(\<not> contains (tag_str name) ''cfb/schools'' \<longrightarrow>
      ncaaf_get_name name = (tag_text name, tag_text name, True)) \<and>
   (contains (tag_str name) ''cfb/schools'' \<longrightarrow>
      ncaaf_get_name name =
        (let code = re_sub_from ''/'' (re_sub_upto ''/schools/'' (tag_str name)) in
         if code = '''' then (tag_text name, tag_text name, True)
         else (tag_text name, code, False))) \<and>
   (tag_str name = pre @ ''/cfb/schools/'' @ code @ ''/'' @ rest \<and>
    newline \<notin> set (tag_str name) \<and> CHR ''/'' \<notin> set code \<and>
    \<not> contains (''/'' @ code @ ''/'' @ rest) ''/schools/'' \<longrightarrow>
      ncaaf_get_name name =
        (if code = '''' then (tag_text name, tag_text name, True)
         else (tag_text name, code, False)))"
proof -
  have absent: "ncaaf_get_name name = (tag_text name, tag_text name, True)"
    if "\<not> contains (tag_str name) ''cfb/schools''"
    using that by (simp add: ncaaf_get_name_def ncaaf_parse_abbreviation_def Let_def)
  have present: "ncaaf_get_name name =
        (let code = re_sub_from ''/'' (re_sub_upto ''/schools/'' (tag_str name)) in
         if code = '''' then (tag_text name, tag_text name, True)
         else (tag_text name, code, False))"
    if "contains (tag_str name) ''cfb/schools''"
    using that by (simp add: ncaaf_get_name_def ncaaf_parse_abbreviation_def Let_def)
  have link: "ncaaf_get_name name =
        (if code = '''' then (tag_text name, tag_text name, True)
         else (tag_text name, code, False))"
    if "tag_str name = pre @ ''/cfb/schools/'' @ code @ ''/'' @ rest"
      and "newline \<notin> set (tag_str name)" and "CHR ''/'' \<notin> set code"
      and "\<not> contains (''/'' @ code @ ''/'' @ rest) ''/schools/''"
  proof -
    from that have "ncaaf_parse_abbreviation name = Some code"
      by (rule ncaaf_parse_abbreviation_link)
    then show ?thesis
      by (simp add: ncaaf_get_name_def Let_def)
  qed
  from absent present link show ?thesis
    by blast
qed

theorem get_name_division_flag_witness:
  "ncaaf_get_name
     \<lparr>tag_str = ''<a href=\"/cfb/schools/purdue/2017.html\">Purdue</a>'',
      tag_text = ''Purdue''\<rparr> = (''Purdue'', ''purdue'', False) \<and>
   ncaaf_get_name \<lparr>tag_str = ''<a>Wabash</a>'', tag_text = ''Wabash''\<rparr>
     = (''Wabash'', ''Wabash'', True)"
proof -
  let ?di = "\<lparr>tag_str = ''<a href=\"/cfb/schools/purdue/2017.html\">Purdue</a>'',
      tag_text = ''Purdue''\<rparr>"
  let ?other = "\<lparr>tag_str = ''<a>Wabash</a>'', tag_text = ''Wabash''\<rparr>"
  have form: "tag_str ?di = ''<a href=\"'' @ ''/cfb/schools/'' @ ''purdue'' @ ''/'' @
      ''2017.html\">Purdue</a>''"
    by simp
  have line: "newline \<notin> set (tag_str ?di)"
    by (simp add: newline_def)
  have code: "CHR ''/'' \<notin> set ''purdue''"
    by simp
  have last: "\<not> contains (''/'' @ ''purdue'' @ ''/'' @ ''2017.html\">Purdue</a>'') ''/schools/''"
    by code_simp
  have absent: "\<not> contains (tag_str ?other) ''cfb/schools''"
    by code_simp
  from get_name_division_flag [of ?di "''<a href=\"''" "''purdue''" "''2017.html\">Purdue</a>''"]
    form line code last
  have 1: "ncaaf_get_name ?di = (''Purdue'', ''purdue'', False)"
    by simp
  from get_name_division_flag [of ?other] absent
  have 2: "ncaaf_get_name ?other = (''Wabash'', ''Wabash'', True)"
    by simp
  from 1 2 show ?thesis
    by simp
qed

text \<open>
  The claim as the specification words it fails on a tag whose link has an empty
  code: the segment is present, yet the team is flagged and abbreviated by its
  display name.
\<close>

theorem get_name_empty_code_is_flagged:
  "contains ''<a href=\"/cfb/schools//2017.html\">Foo</a>'' ''cfb/schools'' \<and>
   ncaaf_get_name \<lparr>tag_str = ''<a href=\"/cfb/schools//2017.html\">Foo</a>'', tag_text = ''Foo''\<rparr>
     = (''Foo'', ''Foo'', True)"
  by code_simp

section \<open>The narrative block\<close>

lemma index_0: "xs \<noteq> [] \<Longrightarrow> index xs 0 = Inr (hd xs)"
  by (cases xs) (simp_all add: index_def)

lemma line_or_empty_selected:
  "0 \<le> i \<Longrightarrow> line_or_empty game_info i = Inr (selected_line game_info (nat i))"
  by (auto simp add: line_or_empty_def selected_line_def index_nat)

lemma day_loop_list_ex:
  "game_info \<noteq> [] \<Longrightarrow>
     day_loop days game_info i =
       (if list_ex (\<lambda>day. contains (lower (hd game_info)) day) days
        then bind (line_or_empty game_info i) (\<lambda>v. Inr (Some v))
        else Inr None)"
  by (induction days) (simp_all add: index_0)

text \<open>
  Claim C4. The NCAAF narrative parser reads a field at its fixed line index when
  the first line names a weekday, and one line further down when it does not; in
  both cases a line past the end of the block, an empty line and a line with the
  watermark give the empty string, and any other line is returned as it is.
\<close>

theorem ncaaf_narrative_field_line:
  assumes "BOXSCORE_SCHEME site field = Some scheme"
    and "items_text site boxscore scheme = block # others"
    and "BOXSCORE_ELEMENT_INDEX site field = Some i"
    and "0 \<le> i"
  shows "(\<not> has_weekday (hd (split block newline)) \<longrightarrow>
            ncaaf_parse_game_date_and_location site field boxscore
              = Inr (selected_line (split block newline) (nat i + 1))) \<and>
         (has_weekday (hd (split block newline)) \<longrightarrow>
            ncaaf_parse_game_date_and_location site field boxscore
              = Inr (selected_line (split block newline) (nat i))) \<and>
         (\<forall>k. length (split block newline) \<le> k \<or>
               contains (lower (split block newline ! k)) ''sports logos.net'' \<or>
               split block newline ! k = '''' \<longrightarrow>
               selected_line (split block newline) k = '''') \<and>
         (\<forall>k. k < length (split block newline) \<and>
               \<not> contains (lower (split block newline ! k)) ''sports logos.net'' \<and>
               split block newline ! k \<noteq> '''' \<longrightarrow>
               selected_line (split block newline) k = split block newline ! k)"
proof -
  let ?lines = "split block newline"
  have lines: "?lines \<noteq> []"
    by simp
  from assms(4) have shifted: "nat (i + 1) = nat i + 1"
    by simp
  from assms(4) have "0 \<le> i + 1"
    by simp
  then have below: "line_or_empty ?lines (i + 1) = Inr (selected_line ?lines (nat i + 1))"
    using line_or_empty_selected [of "i + 1" ?lines] shifted by simp
  have here: "line_or_empty ?lines i = Inr (selected_line ?lines (nat i))"
    using assms(4) by (rule line_or_empty_selected)
  have run: "ncaaf_parse_game_date_and_location site field boxscore =
      bind (day_loop weekdays ?lines i) (\<lambda>found.
        case found of Some v \<Rightarrow> Inr v | None \<Rightarrow> line_or_empty ?lines (i + 1))"
    using assms(1-3)
    by (simp add: ncaaf_parse_game_date_and_location_def lookup_def index_def Let_def)
  have bowl: "ncaaf_parse_game_date_and_location site field boxscore
      = Inr (selected_line ?lines (nat i + 1))"
    if "\<not> has_weekday (hd ?lines)"
    using that run below by (simp add: day_loop_list_ex [OF lines] has_weekday_def)
  have regular: "ncaaf_parse_game_date_and_location site field boxscore
      = Inr (selected_line ?lines (nat i))"
    if "has_weekday (hd ?lines)"
    using that run here by (simp add: day_loop_list_ex [OF lines] has_weekday_def)
  from bowl regular show ?thesis
    by (auto simp add: selected_line_def)
qed

theorem ncaaf_narrative_field_line_witness:
  "ncaaf_parse_game_date_and_location narrative_site ''time''
     [''Rose Bowl'' @ [newline] @ ''Monday Jan 1, 2018'' @ [newline] @ ''Start Time: 5:10 PM ET'']
     = Inr ''Start Time: 5:10 PM ET'' \<and>
   ncaaf_parse_game_date_and_location narrative_site ''stadium''
     [''Saturday Sep 9, 2017'' @ [newline] @ ''Start Time: 8:00 PM ET'' @ [newline] @
      ''Logos via Sports Logos.net'']
     = Inr ''''"
proof -
  let ?bowl = "''Rose Bowl'' @ [newline] @ ''Monday Jan 1, 2018'' @ [newline] @
      ''Start Time: 5:10 PM ET''"
  let ?regular = "''Saturday Sep 9, 2017'' @ [newline] @ ''Start Time: 8:00 PM ET'' @ [newline] @
      ''Logos via Sports Logos.net''"
  have scheme: "BOXSCORE_SCHEME narrative_site f = Some f" for f
    by (simp add: narrative_site_def)
  have items: "items_text narrative_site [b] f = b # []" for b f
    by (simp add: narrative_site_def)
  have time: "BOXSCORE_ELEMENT_INDEX narrative_site ''time'' = Some 1"
    and stadium: "BOXSCORE_ELEMENT_INDEX narrative_site ''stadium'' = Some 2"
    by (simp_all add: narrative_site_def)
  have bowl: "\<not> has_weekday (hd (split ?bowl newline))"
    by code_simp
  have bowl_line: "selected_line (split ?bowl newline) (nat 1 + 1) = ''Start Time: 5:10 PM ET''"
    by code_simp
  have regular: "has_weekday (hd (split ?regular newline))"
    by code_simp
  have regular_line: "selected_line (split ?regular newline) (nat 2) = ''''"
    by code_simp
  from ncaaf_narrative_field_line [OF scheme items time] bowl bowl_line
  have 1: "ncaaf_parse_game_date_and_location narrative_site ''time'' [?bowl]
      = Inr ''Start Time: 5:10 PM ET''"
    by simp
  from ncaaf_narrative_field_line [OF scheme items stadium] regular regular_line
  have 2: "ncaaf_parse_game_date_and_location narrative_site ''stadium'' [?regular] = Inr ''''"
    by simp
  from 1 2 show ?thesis
    by simp
qed

lemma element_loop_time_of_day:
  "element_loop site ''time_of_day'' game_info =
     Inr (find (\<lambda>line. contains (lower line) ''night game'' \<or> contains (lower line) ''day game'')
       game_info)"
  by (induction game_info) simp_all

lemma element_loop_marker:
  "field \<noteq> ''time_of_day'' \<Longrightarrow> DOUBLE_HEADER_INDICES site field = Some marker \<Longrightarrow>
     element_loop site field game_info =
       Inr (find (\<lambda>line. contains (lower line) marker) game_info)"
  by (induction game_info) (simp_all add: lookup_def)

lemma item_loop_not_found:
  "field \<noteq> ''date'' \<Longrightarrow> element_loop site field game_info = Inr None \<Longrightarrow>
     item_loop site field game_info True items = Inr (None, True)"
  by (induction items) simp_all

lemma is_doubleheader_block:
  assumes "line \<in> set (split block sep)" and "is_doubleheader line"
  shows "is_doubleheader block"
proof -
  from assms(1) obtain a b where "block = a @ line @ b"
    using split_part_of by blast
  with assms(2) show ?thesis
    by (auto simp add: is_doubleheader_def contains_lower_part)
qed

lemma doubleheader_field:
  assumes "field \<noteq> ''date''"
    and "is_doubleheader block"
    and "element_loop site field game_info = Inr (find marked game_info)"
  shows "bind (item_loop site field game_info False (block # others)) (\<lambda>(found, double_header).
           case found of
             Some v \<Rightarrow> Inr v
           | None \<Rightarrow> if double_header then Inr '''' else index game_info i)
         = Inr (first_line_with marked game_info)"
proof (cases "find marked game_info")
  case None
  with assms(3) have "element_loop site field game_info = Inr None"
    by simp
  with assms(1) have "item_loop site field game_info True others = Inr (None, True)"
    by (rule item_loop_not_found)
  with assms None show ?thesis
    by (simp add: first_line_with_def)
next
  case (Some line)
  with assms show ?thesis
    by (simp add: first_line_with_def)
qed

text \<open>
  Claim C3. When a line of the MLB narrative block carries one of the doubleheader
  phrases, in any case of letters, the date is line 0 of the block, whatever index
  the field has; the time of day is the first line with \<^verbatim>\<open>night game\<close> or
  \<^verbatim>\<open>day game\<close>, and any other field is the first line whose lower-case form
  contains the field's marker of \<^verbatim>\<open>DOUBLE_HEADER_INDICES\<close>; a field whose marker
  is on no line is the empty string.
\<close>

theorem mlb_doubleheader_fields:
  assumes "BOXSCORE_SCHEME site field = Some scheme"
    and "items_text site boxscore scheme = block # others"
    and "BOXSCORE_ELEMENT_INDEX site field = Some i"
    and "\<exists>line \<in> set (split block newline). is_doubleheader line"
  shows "(field = ''date'' \<longrightarrow>
            mlb_parse_game_date_and_location site field boxscore
              = Inr (split block newline ! 0)) \<and>
         (field = ''time_of_day'' \<longrightarrow>
            mlb_parse_game_date_and_location site field boxscore
              = Inr (first_line_with
                  (\<lambda>line. contains (lower line) ''night game'' \<or>
                           contains (lower line) ''day game'')
                  (split block newline))) \<and>
         (field \<noteq> ''date'' \<and> field \<noteq> ''time_of_day'' \<and>
          DOUBLE_HEADER_INDICES site field = Some marker \<longrightarrow>
            mlb_parse_game_date_and_location site field boxscore
              = Inr (first_line_with (\<lambda>line. contains (lower line) marker)
                  (split block newline))) \<and>
         (\<forall>marked. (\<forall>line \<in> set (split block newline). \<not> marked line) \<longrightarrow>
            first_line_with marked (split block newline) = '''') \<and>
         (\<forall>marked k. k < length (split block newline) \<and> marked (split block newline ! k) \<and>
            (\<forall>j < k. \<not> marked (split block newline ! j)) \<longrightarrow>
            first_line_with marked (split block newline) = split block newline ! k)"
proof -
  let ?lines = "split block newline"
  from assms(4) have dh: "is_doubleheader block"
    using is_doubleheader_block by blast
  have lines: "?lines \<noteq> []"
    by simp
  then have line0: "index ?lines 0 = Inr (?lines ! 0)"
    by (simp add: index_0 hd_conv_nth)
  have run: "mlb_parse_game_date_and_location site field boxscore =
      bind (item_loop site field ?lines False (block # others)) (\<lambda>(found, double_header).
        case found of
          Some v \<Rightarrow> Inr v
        | None \<Rightarrow> if double_header then Inr '''' else index ?lines i)"
    using assms(1-3)
    by (simp add: mlb_parse_game_date_and_location_def lookup_def index_def Let_def)
  have date: "mlb_parse_game_date_and_location site field boxscore = Inr (?lines ! 0)"
    if "field = ''date''"
    unfolding run using that dh line0 by simp
  have time_of_day: "mlb_parse_game_date_and_location site field boxscore
      = Inr (first_line_with
          (\<lambda>line. contains (lower line) ''night game'' \<or> contains (lower line) ''day game'')
          ?lines)"
    if "field = ''time_of_day''"
  proof -
    from that have "field \<noteq> ''date''"
      by simp
    then show ?thesis
      unfolding run using dh element_loop_time_of_day [of site ?lines] that
      by (intro doubleheader_field) simp_all
  qed
  have other: "mlb_parse_game_date_and_location site field boxscore
      = Inr (first_line_with (\<lambda>line. contains (lower line) marker) ?lines)"
    if "field \<noteq> ''date''" and "field \<noteq> ''time_of_day''"
      and "DOUBLE_HEADER_INDICES site field = Some marker"
    unfolding run using that(1) dh element_loop_marker [OF that(2,3)]
    by (rule doubleheader_field)
  have absent: "first_line_with marked ?lines = ''''"
    if "\<forall>line \<in> set ?lines. \<not> marked line" for marked
  proof -
    from that have "find marked ?lines = None"
      by (simp add: find_None_iff)
    then show ?thesis
      by (simp add: first_line_with_def)
  qed
  have first: "first_line_with marked ?lines = ?lines ! k"
    if "k < length ?lines" and "marked (?lines ! k)" and "\<forall>j < k. \<not> marked (?lines ! j)"
    for marked k
  proof -
    from that have "find marked ?lines = Some (?lines ! k)"
      unfolding find_Some_iff by blast
    then show ?thesis
      by (simp add: first_line_with_def)
  qed
  from date have c1: "field = ''date'' \<longrightarrow>
      mlb_parse_game_date_and_location site field boxscore = Inr (?lines ! 0)"
    by blast
  from time_of_day have c2: "field = ''time_of_day'' \<longrightarrow>
      mlb_parse_game_date_and_location site field boxscore
        = Inr (first_line_with
            (\<lambda>line. contains (lower line) ''night game'' \<or> contains (lower line) ''day game'')
            ?lines)"
    by blast
  from other have c3: "field \<noteq> ''date'' \<and> field \<noteq> ''time_of_day'' \<and>
      DOUBLE_HEADER_INDICES site field = Some marker \<longrightarrow>
      mlb_parse_game_date_and_location site field boxscore
        = Inr (first_line_with (\<lambda>line. contains (lower line) marker) ?lines)"
    by blast
  from absent have c4: "\<forall>marked. (\<forall>line \<in> set ?lines. \<not> marked line) \<longrightarrow>
      first_line_with marked ?lines = ''''"
    by blast
  from first have c5: "\<forall>marked k. k < length ?lines \<and> marked (?lines ! k) \<and>
      (\<forall>j < k. \<not> marked (?lines ! j)) \<longrightarrow>
      first_line_with marked ?lines = ?lines ! k"
    by blast
  from c1 c2 c3 c4 c5 show ?thesis
    by (intro conjI) assumption+
qed

theorem mlb_doubleheader_fields_witness:
  "mlb_parse_game_date_and_location narrative_site ''date''
     [''Thursday, June 7, 2018'' @ [newline] @ ''Start Time: 1:05 p.m. ET'' @ [newline] @
      ''Venue: Fenway Park'' @ [newline] @ ''First game of doubleheader'' @ [newline] @
      ''Day Game, on grass'']
     = Inr ''Thursday, June 7, 2018'' \<and>
   mlb_parse_game_date_and_location narrative_site ''venue''
     [''Thursday, June 7, 2018'' @ [newline] @ ''Start Time: 1:05 p.m. ET'' @ [newline] @
      ''Venue: Fenway Park'' @ [newline] @ ''First game of doubleheader'' @ [newline] @
      ''Day Game, on grass'']
     = Inr ''Venue: Fenway Park'' \<and>
   mlb_parse_game_date_and_location narrative_site ''attendance''
     [''Thursday, June 7, 2018'' @ [newline] @ ''Start Time: 1:05 p.m. ET'' @ [newline] @
      ''Venue: Fenway Park'' @ [newline] @ ''First game of doubleheader'' @ [newline] @
      ''Day Game, on grass'']
     = Inr '''' \<and>
   mlb_parse_game_date_and_location narrative_site ''time_of_day''
     [''Thursday, June 7, 2018'' @ [newline] @ ''Start Time: 1:05 p.m. ET'' @ [newline] @
      ''Venue: Fenway Park'' @ [newline] @ ''First game of doubleheader'' @ [newline] @
      ''Day Game, on grass'']
     = Inr ''Day Game, on grass''"
proof -
  let ?block = "''Thursday, June 7, 2018'' @ [newline] @ ''Start Time: 1:05 p.m. ET'' @
      [newline] @ ''Venue: Fenway Park'' @ [newline] @ ''First game of doubleheader'' @
      [newline] @ ''Day Game, on grass''"
  have scheme: "BOXSCORE_SCHEME narrative_site f = Some f" for f
    by (simp add: narrative_site_def)
  have items: "items_text narrative_site [?block] f = ?block # []" for f
    by (simp add: narrative_site_def)
  have date: "BOXSCORE_ELEMENT_INDEX narrative_site ''date'' = Some 0"
    and venue: "BOXSCORE_ELEMENT_INDEX narrative_site ''venue'' = Some 3"
    and attendance: "BOXSCORE_ELEMENT_INDEX narrative_site ''attendance'' = Some 2"
    and time_of_day: "BOXSCORE_ELEMENT_INDEX narrative_site ''time_of_day'' = Some 5"
    by (simp_all add: narrative_site_def)
  have venue_marker: "DOUBLE_HEADER_INDICES narrative_site ''venue'' = Some ''venue''"
    and attendance_marker:
      "DOUBLE_HEADER_INDICES narrative_site ''attendance'' = Some ''attendance''"
    by (simp_all add: narrative_site_def)
  have dh: "\<exists>line \<in> set (split ?block newline). is_doubleheader line"
    by code_simp
  have line0: "split ?block newline ! 0 = ''Thursday, June 7, 2018''"
    by code_simp
  have venue_line: "first_line_with (\<lambda>line. contains (lower line) ''venue'')
      (split ?block newline) = ''Venue: Fenway Park''"
    by code_simp
  have attendance_line: "first_line_with (\<lambda>line. contains (lower line) ''attendance'')
      (split ?block newline) = ''''"
    by code_simp
  have time_of_day_line: "first_line_with
      (\<lambda>line. contains (lower line) ''night game'' \<or> contains (lower line) ''day game'')
      (split ?block newline) = ''Day Game, on grass''"
    by code_simp
  from mlb_doubleheader_fields [OF scheme items date dh, THEN conjunct1] line0
  have 1: "mlb_parse_game_date_and_location narrative_site ''date'' [?block]
      = Inr ''Thursday, June 7, 2018''"
    by simp
  from mlb_doubleheader_fields
    [OF scheme items venue dh, where marker = "''venue''", THEN conjunct2, THEN conjunct2,
      THEN conjunct1]
    venue_marker venue_line
  have 2: "mlb_parse_game_date_and_location narrative_site ''venue'' [?block]
      = Inr ''Venue: Fenway Park''"
    by simp
  from mlb_doubleheader_fields
    [OF scheme items attendance dh, where marker = "''attendance''", THEN conjunct2,
      THEN conjunct2, THEN conjunct1]
    attendance_marker attendance_line
  have 3: "mlb_parse_game_date_and_location narrative_site ''attendance'' [?block] = Inr ''''"
    by simp
  from mlb_doubleheader_fields [OF scheme items time_of_day dh, THEN conjunct2, THEN conjunct1]
    time_of_day_line
  have 4: "mlb_parse_game_date_and_location narrative_site ''time_of_day'' [?block]
      = Inr ''Day Game, on grass''"
    by simp
  from 1 2 3 4 show ?thesis
    by simp
qed

end
